theory Spec2Isabelle
  imports Main "HOL-Library.Sublist" "HOL-Library.Log_Nat"
begin

section \<open>Python strings\<close>

text \<open>
  A Python \<open>str\<close> is modelled as a list of code points, and a \<open>char\<close> stands for a
  code point below 256. \<open>is_space\<close> lists the code points below 256 for which
  \<open>str.isspace\<close> holds (the ones \<open>str.strip()\<close> removes); \<open>lower_char\<close> is
  \<open>str.lower\<close> on that range.
\<close>

definition is_space :: "char \<Rightarrow> bool" where
  "is_space c = (of_char c \<in> {9, 10, 11, 12, 13, 28, 29, 30, 31, 32, 133, 160 :: nat})"

definition strip :: "string \<Rightarrow> string" where
  "strip s = rev (dropWhile is_space (rev (dropWhile is_space s)))"

definition lower_char :: "char \<Rightarrow> char" where
  "lower_char c =
     (let n = (of_char c :: nat)
      in if (65 \<le> n \<and> n \<le> 90) \<or> (192 \<le> n \<and> n \<le> 222 \<and> n \<noteq> 215)
         then char_of (n + 32) else c)"

definition lower :: "string \<Rightarrow> string" where
  "lower s = map lower_char s"

fun str_in :: "string \<Rightarrow> string \<Rightarrow> bool" where
  \<comment> \<open>\<^verbatim>\<open>needle in haystack\<close> on strings\<close>
  "str_in xs [] = (xs = [])"
| "str_in xs (y # ys) = (prefix xs (y # ys) \<or> str_in xs ys)"

fun string_of_nat :: "nat \<Rightarrow> string" where
  "string_of_nat n =
     (if n < 10 then [char_of (48 + n)]
      else string_of_nat (n div 10) @ [char_of (48 + n mod 10)])"

declare string_of_nat.simps [simp del]

section \<open>Python floats\<close>

text \<open>
  A finite binary64 value is the rational it denotes. \<open>double_of\<close> rounds a rational to
  the nearest binary64 value, ties to even, with the subnormal exponent clamp; the
  overflow to infinity above \<open>2 ^ 1024\<close> is not modelled (every operand below is
  smaller than 50). A float literal of the source is \<open>double_of\<close> of its decimal, and
  \<open>+\<close>, \<open>-\<close>, \<open>*\<close>, \<open>/\<close> on floats round the exact result.
\<close>

definition floor_log2 :: "rat \<Rightarrow> int" where
  "floor_log2 x =
     (if 1 \<le> x then bitlen \<lfloor>x\<rfloor> - 1 else - bitlen (\<lceil>1 / x\<rceil> - 1))"

definition round_half_even :: "rat \<Rightarrow> int" where
  "round_half_even q =
     (let f = \<lfloor>q\<rfloor>; r = q - of_int f
      in if r < 1 / 2 then f else if 1 / 2 < r then f + 1 else if even f then f else f + 1)"

definition double_of :: "rat \<Rightarrow> rat" where
  "double_of x =
     (if x = 0 then 0
      else let a = \<bar>x\<bar>;
               e = max (floor_log2 a) (- 1022);
               u = 2 powi (e - 52)
           in sgn x * of_int (round_half_even (a / u)) * u)"

definition fadd :: "rat \<Rightarrow> rat \<Rightarrow> rat" where "fadd x y = double_of (x + y)"
definition fsub :: "rat \<Rightarrow> rat \<Rightarrow> rat" where "fsub x y = double_of (x - y)"
definition fmul :: "rat \<Rightarrow> rat \<Rightarrow> rat" where "fmul x y = double_of (x * y)"
definition fdiv :: "rat \<Rightarrow> rat \<Rightarrow> rat" where "fdiv x y = double_of (x / y)"

datatype pyfloat = Fin rat | PosInf | NegInf | NaN

fun pf_ge :: "pyfloat \<Rightarrow> rat \<Rightarrow> bool" where
  \<comment> \<open>\<^verbatim>\<open>x >= t\<close> for a finite \<open>t\<close>: every comparison with nan is false\<close>
  "pf_ge (Fin x) t = (t \<le> x)"
| "pf_ge PosInf t = True"
| "pf_ge NegInf t = False"
| "pf_ge NaN t = False"

fun pf_le :: "pyfloat \<Rightarrow> rat \<Rightarrow> bool" where
  "pf_le (Fin x) t = (x \<le> t)"
| "pf_le PosInf t = False"
| "pf_le NegInf t = True"
| "pf_le NaN t = False"

fun format_2f :: "pyfloat \<Rightarrow> string" where
  \<comment> \<open>the format specification \<^verbatim>\<open>.2f\<close>: two decimals, correctly rounded\<close>
  "format_2f (Fin x) =
     (let n = nat (round_half_even (\<bar>x\<bar> * 100))
      in (if x < 0 then ''-'' else []) @ string_of_nat (n div 100) @ ''.''
         @ string_of_nat (n mod 100 div 10) @ string_of_nat (n mod 10))"
| "format_2f PosInf = ''inf''"
| "format_2f NegInf = ''-inf''"
| "format_2f NaN = ''nan''"

section \<open>Values, events and contexts (src/models/adk.py)\<close>

text \<open>
  \<open>Dict[str, Any]\<close> values are association lists in insertion order over a small
  universe of Python values.
\<close>

datatype pyval =
    PNone
  | PBool bool
  | PInt int
  | PFloat pyfloat
  | PStr string
  | PList "pyval list"
  | PDict "(string \<times> pyval) list"

type_synonym dict = "(string \<times> pyval) list"

definition py_type_name :: "pyval \<Rightarrow> string" where
  "py_type_name v =
     (case v of
        PNone \<Rightarrow> ''NoneType'' | PBool b \<Rightarrow> ''bool'' | PInt i \<Rightarrow> ''int''
      | PFloat f \<Rightarrow> ''float'' | PStr s \<Rightarrow> ''str'' | PList xs \<Rightarrow> ''list''
      | PDict kvs \<Rightarrow> ''dict'')"

definition no_attribute :: "pyval \<Rightarrow> string \<Rightarrow> string" where
  \<comment> \<open>the text of the AttributeError of a missing attribute\<close>
  "no_attribute v attr =
     [CHR 0x27] @ py_type_name v @ [CHR 0x27] @ '' object has no attribute ''
     @ [CHR 0x27] @ attr @ [CHR 0x27]"

text \<open>
  The seven event classes. The last two arguments of every constructor are
  \<open>request_id\<close> and \<open>trace_id\<close>; the others follow the field order of the class.
\<close>

datatype event =
    DelegationEvent string pyfloat dict string string
  | ClarificationEvent string "string list option" string string
  | GeneralResponseEvent string string string
  | ToolInvocationEvent string dict string string
  | ToolResultEvent string dict "string option" string string
  | FinalResponseEvent string string "string option" "dict option" string string
  | ErrorEvent string string "dict option" string string



type_synonym 'v session_state = "string \<rightharpoonup> 'v"
type_synonym 'v sessions = "string \<rightharpoonup> 'v session_state"

record InvocationContext =
  query :: string
  request_id :: string
  session_id :: "string option"
  trace_id :: string
  session_state :: "pyval session_state"
  metadata :: dict
  extracted_context :: dict

definition mk_DelegationEvent ::
  "string \<Rightarrow> pyfloat \<Rightarrow> dict \<Rightarrow> string \<Rightarrow> string \<Rightarrow> string + event" where
  \<comment> \<open>the constructor validates \<^verbatim>\<open>confidence: float = Field(..., ge=0.0, le=1.0)\<close>;
      \<open>Inl\<close> is the text of the validation error it raises\<close>
  "mk_DelegationEvent target conf dctx rid tid =
     (if \<not> pf_ge conf 0 then
        Inl (''1 validation error for DelegationEvent'' @ [CHR 0x0A] @ ''confidence'' @ [CHR 0x0A]
             @ ''  ensure this value is greater than or equal to 0.0 ''
             @ ''(type=value_error.number.not_ge; limit_value=0.0)'')
      else if \<not> pf_le conf 1 then
        Inl (''1 validation error for DelegationEvent'' @ [CHR 0x0A] @ ''confidence'' @ [CHR 0x0A]
             @ ''  ensure this value is less than or equal to 1.0 ''
             @ ''(type=value_error.number.not_le; limit_value=1.0)'')
      else Inr (DelegationEvent target conf dctx rid tid))"

section \<open>Settings (src/config/settings.py)\<close>

definition DEFAULT_CONFIDENCE_THRESHOLD :: rat where
  "DEFAULT_CONFIDENCE_THRESHOLD = double_of (7 / 10)"

definition HIGH_CONFIDENCE_THRESHOLD :: rat where
  "HIGH_CONFIDENCE_THRESHOLD = double_of (9 / 10)"

definition LOW_CONFIDENCE_THRESHOLD :: rat where
  "LOW_CONFIDENCE_THRESHOLD = double_of (5 / 10)"

section \<open>Intent analysis by the text-generation oracle (src/utils/gemini.py)\<close>

text \<open>
  The network call and the JSON parsing of \<open>GeminiClient.analyze_query_intent\<close> are an
  external capability: an \<open>intent_oracle\<close> maps the query to the failure text of
  whatever was raised on the way, or to the three fields read from the parsed reply.
  \<open>best_agent\<close> is the agent name, \<open>None\<close> when the field is absent or null.
  \<open>confidence\<close> is a number, given by its value: the f-string of the method's log line
  raises for anything that is not a number, so nothing else leaves the method.
  \<open>scores\<close> is whatever value the reply holds under that name: the method returns it
  unchecked. The check of the agent name and the wrapping of every failure into a
  \<open>GeminiAPIError\<close> are the method's own.
\<close>

type_synonym intent_oracle = "string \<Rightarrow> string + (string option \<times> pyfloat \<times> pyval)"

definition GeminiClient_analyze_query_intent ::
  "intent_oracle \<Rightarrow> string \<Rightarrow> string list \<Rightarrow> string + (string \<times> pyfloat \<times> pyval)" where
  "GeminiClient_analyze_query_intent orc q available_agents =
     (case orc q of
        Inl e \<Rightarrow> Inl (''Failed to analyze query intent: '' @ e)
      | Inr (best_agent, confidence, scores) \<Rightarrow>
          (case best_agent of
             None \<Rightarrow> Inl (''Failed to analyze query intent: Invalid agent name: None'')
           | Some b \<Rightarrow>
               if b = [] \<or> b \<notin> set available_agents
               then Inl (''Failed to analyze query intent: Invalid agent name: '' @ b)
               else Inr (b, confidence, scores)))"

section \<open>The Tutor agent (src/agents/tutor_agent.py)\<close>

definition available_agents :: "string list" where
  "available_agents = [''MathAgent'', ''PhysicsAgent'']"

definition math_keywords :: "string list" where
  "math_keywords =
     [''math'', ''mathematics'', ''algebra'', ''calculus'', ''geometry'', ''trigonometry'',
      ''equation'', ''solve'', ''simplify'', ''factor'', ''expand'', ''derivative'', ''integral'',
      ''function'', ''graph'', ''polynomial'', ''matrix'', ''vector'', ''logarithm'', ''exponent'',
      ''sin'', ''cos'', ''tan'', ''calculate'', ''computation'', ''arithmetic'', ''number'',
      ''theorem'', ''proof'', ''formula'', ''expression'', ''variable'', ''coefficient'',
      ''quadratic'', ''linear'', ''inequality'', ''fraction'', ''decimal'', ''percentage'']"

definition physics_keywords :: "string list" where
  "physics_keywords =
     [''physics'', ''mechanics'', ''dynamics'', ''kinematics'', ''force'', ''energy'', ''momentum'',
      ''gravity'', ''acceleration'', ''velocity'', ''displacement'', ''motion'', ''newton'',
      ''thermodynamics'', ''heat'', ''temperature'', ''pressure'', ''volume'', ''gas'',
      ''electromagnetism'', ''electric'', ''magnetic'', ''field'', ''charge'', ''current'',
      ''voltage'', ''resistance'', ''circuit'', ''wave'', ''optics'', ''light'', ''reflection'',
      ''refraction'', ''quantum'', ''relativity'', ''nuclear'', ''atom'', ''particle'',
      ''conservation'', ''friction'', ''fluid'', ''density'', ''pressure'', ''oscillation'']"

definition math_count :: "string \<Rightarrow> nat" where
  \<comment> \<open>\<^verbatim>\<open>sum(1 for keyword in self.math_keywords if keyword in query_lower)\<close>\<close>
  "math_count q = length (filter (\<lambda>keyword. str_in keyword (lower q)) math_keywords)"

definition physics_count :: "string \<Rightarrow> nat" where
  "physics_count q = length (filter (\<lambda>keyword. str_in keyword (lower q)) physics_keywords)"

text \<open>
  \<open>_analyze_query_intent\<close> returns the chosen agent, its confidence and the scores
  (a dictionary when stage 1 decides, the oracle's value otherwise), or the text of the
  exception the oracle path raised. The second component
  lists the queries sent to the oracle by this call.
\<close>

definition TutorAgent_analyze_query_intent ::
  "intent_oracle \<Rightarrow> string \<Rightarrow> (string + (string \<times> pyfloat \<times> pyval)) \<times> string list" where
  "TutorAgent_analyze_query_intent orc q =
     (if 0 < math_count q \<and> 2 * physics_count q < math_count q then
        (let confidence =
               min (fadd (double_of (7 / 10))
                      (fmul (double_of (1 / 10)) (double_of (of_nat (math_count q)))))
                   (double_of (95 / 100))
         in (Inr (''MathAgent'', Fin confidence,
                  PDict [(''MathAgent'', PFloat (Fin confidence)),
                         (''PhysicsAgent'', PFloat (Fin (fsub 1 confidence)))]), []))
      else if 0 < physics_count q \<and> 2 * math_count q < physics_count q then
        (let confidence =
               min (fadd (double_of (7 / 10))
                      (fmul (double_of (1 / 10)) (double_of (of_nat (physics_count q)))))
                   (double_of (95 / 100))
         in (Inr (''PhysicsAgent'', Fin confidence,
                  PDict [(''PhysicsAgent'', PFloat (Fin confidence)),
                         (''MathAgent'', PFloat (Fin (fsub 1 confidence)))]), []))
      else (GeminiClient_analyze_query_intent orc q available_agents, [q]))"

definition clarification_message :: string where
  "clarification_message =
     ''I'' @ [CHR 0x27] @ ''m not sure which subject your question is about. ''
     @ ''Could you please clarify if you'' @ [CHR 0x27] @ ''re asking about:''"

definition decline_response :: string where
  "decline_response =
     ''I'' @ [CHR 0x27] @ ''m sorry, but I'' @ [CHR 0x27]
     @ ''m not able to determine which subject your question is about. ''
     @ ''Currently, I can help with Mathematics and Physics questions. ''
     @ ''Could you please rephrase your question to be more specific about the subject?''"

fun clarification_options :: "dict \<Rightarrow> string list" where
  \<comment> \<open>the loop over \<^verbatim>\<open>scores.items()\<close>\<close>
  "clarification_options [] = []"
| "clarification_options ((agent, score) # rest) =
     (if agent = ''MathAgent'' then ''Mathematics'' # clarification_options rest
      else if agent = ''PhysicsAgent'' then ''Physics'' # clarification_options rest
      else clarification_options rest)"

definition apply_confidence_thresholds ::
  "string \<Rightarrow> pyfloat \<Rightarrow> pyval \<Rightarrow> string \<Rightarrow> string \<Rightarrow> string + event" where
  \<comment> \<open>the \<^verbatim>\<open>if/elif/elif/else\<close> of \<open>TutorAgent.run\<close> on the confidence; \<open>Inl\<close> is
      the text of an exception raised while the event is built: the validation error of
      the delegation event, or the AttributeError of \<^verbatim>\<open>scores.items()\<close> when the scores
      are not a dictionary\<close>
  "apply_confidence_thresholds best_agent confidence scores rid tid =
     (if pf_ge confidence HIGH_CONFIDENCE_THRESHOLD then
        mk_DelegationEvent best_agent confidence [(''scores'', scores)] rid tid
      else if pf_ge confidence DEFAULT_CONFIDENCE_THRESHOLD then
        mk_DelegationEvent best_agent confidence
          [(''scores'', scores),
           (''ambiguity_note'',
            PStr (''This query has elements of multiple subjects. Confidence: ''
                  @ format_2f confidence))]
          rid tid
      else if pf_ge confidence LOW_CONFIDENCE_THRESHOLD then
        (case scores of
           PDict d \<Rightarrow>
             Inr (ClarificationEvent clarification_message (Some (clarification_options d))
                    rid tid)
         | v \<Rightarrow> Inl (no_attribute v ''items''))
      else Inr (GeneralResponseEvent decline_response rid tid))"

definition TutorAgent_run :: "intent_oracle \<Rightarrow> InvocationContext \<Rightarrow> event list \<times> string list" where
  \<comment> \<open>the events yielded, in order, and the queries sent to the oracle\<close>
  "TutorAgent_run orc ctx =
     (if query ctx = [] \<or> strip (query ctx) = [] then
        ([ErrorEvent ''EMPTY_QUERY'' ''Query cannot be empty'' None
            (request_id ctx) (trace_id ctx)], [])
      else
        (case TutorAgent_analyze_query_intent orc (query ctx) of
           (Inl e, calls) \<Rightarrow>
             ([ErrorEvent ''TUTOR_AGENT_ERROR'' (''Error in Tutor Agent: '' @ e) None
                 (request_id ctx) (trace_id ctx)], calls)
         | (Inr (best_agent, confidence, scores), calls) \<Rightarrow>
             (case apply_confidence_thresholds best_agent confidence scores
                     (request_id ctx) (trace_id ctx) of
                Inl e \<Rightarrow>
                  ([ErrorEvent ''TUTOR_AGENT_ERROR'' (''Error in Tutor Agent: '' @ e) None
                      (request_id ctx) (trace_id ctx)], calls)
              | Inr ev \<Rightarrow> ([ev], calls))))"

section \<open>Session state store (src/utils/adk.py, class SessionService)\<close>

text \<open>
  \<open>SessionService.sessions\<close> is a dictionary from session id to a dictionary of state
  entries. Both levels are partial maps; the values stored under a state key are left
  polymorphic.
\<close>

definition get_session_state :: "'v sessions \<Rightarrow> string \<Rightarrow> 'v session_state" where
  \<comment> \<open>\<^verbatim>\<open>return self.sessions.get(session_id, {})\<close>\<close>
  "get_session_state ss sid =
     (case ss sid of None \<Rightarrow> Map.empty | Some st \<Rightarrow> st)"

definition update_session_state ::
  "'v sessions \<Rightarrow> string \<Rightarrow> 'v session_state \<Rightarrow> 'v sessions" where
  \<comment> \<open>creates the entry when absent, then \<^verbatim>\<open>dict.update\<close>: keys of the updates overwrite\<close>
  "update_session_state ss sid updates =
     (let ss1 = (case ss sid of None \<Rightarrow> ss(sid \<mapsto> Map.empty) | Some _ \<Rightarrow> ss)
      in case ss1 sid of
           None \<Rightarrow> ss1
         | Some st \<Rightarrow> ss1(sid \<mapsto> st ++ updates))"

definition clear_session :: "'v sessions \<Rightarrow> string \<Rightarrow> 'v sessions" where
  "clear_session ss sid =
     (case ss sid of None \<Rightarrow> ss | Some _ \<Rightarrow> ss(sid := None))"

section \<open>The routing policy as the specification words it\<close>

text \<open>
  Stage 1 of the routing policy assigns the winner \<open>min(0.7 + 0.1 \<times> count, 0.95)\<close>,
  computed in floats.
\<close>

definition stage1_confidence :: "nat \<Rightarrow> rat" where
  "stage1_confidence n =
     min (fadd (double_of (7 / 10)) (fmul (double_of (1 / 10)) (double_of (of_nat n))))
         (double_of (95 / 100))"




definition failing_oracle :: intent_oracle where
  \<comment> \<open>an oracle whose every call fails\<close>
  "failing_oracle q = Inl ''unavailable''"




definition context_of :: "string \<Rightarrow> InvocationContext" where
  \<comment> \<open>a context for a query, with fixed identifiers and no session\<close>
  "context_of q =
     \<lparr>query = q, request_id = ''req-1'', session_id = None, trace_id = ''trace-1'',
      session_state = Map.empty, metadata = [], extracted_context = []\<rparr>"

section \<open>Agents as resumable generators (src/utils/adk.py, class BaseAgent)\<close>

text \<open>
  \<open>agent.run(context)\<close> is an asynchronous generator. \<open>Done\<close>: it has returned.
  \<open>Raise e\<close>: it raised an exception whose text is \<open>e\<close>. \<open>Yield v k\<close>: it is
  suspended at a \<open>yield\<close> whose value is \<open>v\<close> (\<open>None\<close> for a bare \<open>yield\<close>), and
  resumed with the sent value \<open>s\<close> it goes on as \<open>k s\<close>; a plain \<open>__anext__()\<close>
  resumes it with \<open>None\<close>.
\<close>

datatype gen = Done | Raise string | Yield "event option" "event option \<Rightarrow> gen"

fun gen_of_events :: "event list \<Rightarrow> gen" where
  \<comment> \<open>a generator that yields the events in order and ignores what it is sent\<close>
  "gen_of_events [] = Done"
| "gen_of_events (e # es) = Yield (Some e) (\<lambda>_. gen_of_events es)"

definition TutorAgent_gen :: "intent_oracle \<Rightarrow> InvocationContext \<Rightarrow> gen" where
  "TutorAgent_gen orc ctx = gen_of_events (fst (TutorAgent_run orc ctx))"

section \<open>The Runner (src/utils/adk.py, class Runner)\<close>

text \<open>
  A tool's \<open>execute\<close> maps its inputs to a result dictionary, or to the text of the
  exception it raised.
\<close>

record Runner =
  agents :: "string \<rightharpoonup> (InvocationContext \<Rightarrow> gen)"
  tools :: "string \<rightharpoonup> (dict \<Rightarrow> string + dict)"
  has_session_service :: bool
  runner_request_id :: string
  runner_trace_id :: string

definition none_event_message :: string where
  \<comment> \<open>the text of the AttributeError of \<^verbatim>\<open>event.event_type\<close> when \<open>event\<close> is \<open>None\<close>\<close>
  "none_event_message =
     [CHR 0x27] @ ''NoneType'' @ [CHR 0x27] @ '' object has no attribute ''
     @ [CHR 0x27] @ ''event_type'' @ [CHR 0x27]"

definition execute_tool :: "Runner \<Rightarrow> string \<Rightarrow> dict \<Rightarrow> event" where
  \<comment> \<open>the branch of \<open>run_agent\<close> for a tool invocation: the event it yields\<close>
  "execute_tool r tool_name inputs =
     (case tools r tool_name of
        None \<Rightarrow>
          ErrorEvent ''TOOL_NOT_FOUND'' (''Tool not found: '' @ tool_name) None
            (runner_request_id r) (runner_trace_id r)
      | Some tool \<Rightarrow>
          (case tool inputs of
             Inr result \<Rightarrow>
               ToolResultEvent tool_name result None (runner_request_id r) (runner_trace_id r)
           | Inl e \<Rightarrow>
               ToolResultEvent tool_name [] (Some e) (runner_request_id r) (runner_trace_id r)))"

definition recursion_message :: string where
  \<comment> \<open>the text of the RecursionError of the interpreter\<close>
  "recursion_message = ''maximum recursion depth exceeded''"

primrec drive ::
  "Runner \<Rightarrow> (string \<Rightarrow> InvocationContext \<Rightarrow> event list) \<Rightarrow> InvocationContext \<Rightarrow> gen
     \<Rightarrow> event list" where
  \<comment> \<open>the \<^verbatim>\<open>async for event in agent.run(context)\<close> loop and its \<^verbatim>\<open>except\<close>; \<open>sub\<close> runs a
      delegate. Every resumption is \<open>k None\<close>: the loop never sends a value.\<close>
  "drive r sub ctx Done = []"
| "drive r sub ctx (Raise e) =
     [ErrorEvent ''AGENT_EXECUTION_ERROR'' (''Agent execution failed: '' @ e) None
        (runner_request_id r) (runner_trace_id r)]"
| "drive r sub ctx (Yield v k) =
     (case v of
        None \<Rightarrow>
          [ErrorEvent ''AGENT_EXECUTION_ERROR''
             (''Agent execution failed: '' @ none_event_message) None
             (runner_request_id r) (runner_trace_id r)]
      | Some (DelegationEvent target conf dctx rid tid) \<Rightarrow>
          sub target (ctx\<lparr>extracted_context := dctx\<rparr>) @ drive r sub ctx (k None)
      | Some (ToolInvocationEvent tool_name inputs rid tid) \<Rightarrow>
          execute_tool r tool_name inputs # drive r sub ctx (k None)
      | Some e \<Rightarrow> e # drive r sub ctx (k None))"

text \<open>
  The events \<open>run_agent\<close> yields, in order. It calls itself for every delegation; the
  number is the depth of nesting the interpreter's recursion limit still allows. At depth
  zero the run of the agent raises the RecursionError, which the \<^verbatim>\<open>except\<close> of
  \<open>run_agent\<close> turns into an error event.
\<close>

primrec run_agent :: "Runner \<Rightarrow> nat \<Rightarrow> string \<Rightarrow> InvocationContext \<Rightarrow> event list" where
  "run_agent r 0 =
     (\<lambda>agent_name ctx.
        case agents r agent_name of
          None \<Rightarrow>
            [ErrorEvent ''AGENT_NOT_FOUND'' (''Agent not found: '' @ agent_name) None
               (runner_request_id r) (runner_trace_id r)]
        | Some agent \<Rightarrow>
            [ErrorEvent ''AGENT_EXECUTION_ERROR''
               (''Agent execution failed: '' @ recursion_message) None
               (runner_request_id r) (runner_trace_id r)])"
| "run_agent r (Suc depth) =
     (\<lambda>agent_name ctx.
        case agents r agent_name of
          None \<Rightarrow>
            [ErrorEvent ''AGENT_NOT_FOUND'' (''Agent not found: '' @ agent_name) None
               (runner_request_id r) (runner_trace_id r)]
        | Some agent \<Rightarrow> drive r (run_agent r depth) ctx (agent ctx))"

text \<open>
  \<open>process_query\<close> reads the events until the first final response (it breaks) or the
  first error (it raises).
\<close>

datatype scan_result =
    Final string string "string option" "dict option"
  | Err string
  | NoFinal

fun first_terminal :: "event list \<Rightarrow> scan_result" where
  "first_terminal [] = NoFinal"
| "first_terminal (FinalResponseEvent resp agent tool results rid tid # rest) =
     Final resp agent tool results"
| "first_terminal (ErrorEvent code msg details rid tid # rest) = Err (code @ '': '' @ msg)"
| "first_terminal (e # rest) = first_terminal rest"

datatype 'a outcome = Returned 'a | Raised string

record query_result =
  answer :: string
  agent_used :: string
  tool_used :: "string option"
  tool_results :: "dict option"

definition uses_session :: "Runner \<Rightarrow> string option \<Rightarrow> bool" where
  \<comment> \<open>\<^verbatim>\<open>self.session_service and session_id\<close>\<close>
  "uses_session r sid = (has_session_service r \<and> (case sid of None \<Rightarrow> False | Some s \<Rightarrow> s \<noteq> []))"

definition initial_context ::
  "Runner \<Rightarrow> pyval sessions \<Rightarrow> string \<Rightarrow> string option \<Rightarrow> InvocationContext" where
  "initial_context r ss q sid =
     \<lparr>query = q, request_id = runner_request_id r, session_id = sid,
      trace_id = runner_trace_id r,
      session_state =
        (case sid of
           None \<Rightarrow> Map.empty
         | Some s \<Rightarrow> if uses_session r sid then get_session_state ss s else Map.empty),
      metadata = [], extracted_context = []\<rparr>"

definition record_turn ::
  "Runner \<Rightarrow> pyval sessions \<Rightarrow> string option \<Rightarrow> string \<Rightarrow> pyval \<Rightarrow> string \<Rightarrow> pyval sessions" where
  \<comment> \<open>the session update after the loop\<close>
  "record_turn r ss sid q final_response agent =
     (case sid of
        None \<Rightarrow> ss
      | Some s \<Rightarrow>
          if uses_session r sid then
            update_session_state ss s
              [''last_query'' \<mapsto> PStr q, ''last_response'' \<mapsto> final_response,
               ''last_agent_used'' \<mapsto> PStr agent]
          else ss)"

definition process_query ::
  "Runner \<Rightarrow> nat \<Rightarrow> pyval sessions \<Rightarrow> string \<Rightarrow> string option
     \<Rightarrow> query_result outcome \<times> pyval sessions" where
  "process_query r depth ss q sid =
     (case first_terminal (run_agent r depth ''TutorAgent'' (initial_context r ss q sid)) of
        Err m \<Rightarrow> (Raised m, ss)
      | NoFinal \<Rightarrow>
          (Raised ''No final response was generated'',
           record_turn r ss sid q PNone ''TutorAgent'')
      | Final resp agent tool results \<Rightarrow>
          (if resp = [] then Raised ''No final response was generated''
           else Returned \<lparr>answer = resp, agent_used = agent, tool_used = tool,
                           tool_results = results\<rparr>,
           record_turn r ss sid q (PStr resp) agent))"




definition demo_runner :: Runner where
  \<comment> \<open>a Runner whose registry holds the Tutor agent only, with the identifiers of
      \<open>context_of\<close>\<close>
  "demo_runner =
     \<lparr>agents = [''TutorAgent'' \<mapsto> TutorAgent_gen failing_oracle], tools = Map.empty,
      has_session_service = True, runner_request_id = ''req-1'',
      runner_trace_id = ''trace-1''\<rparr>"

section \<open>Reference tables (src/config/settings.py)\<close>

text \<open>
  The two tables the lookup tool reads, in source order. The texts inside an entry are
  only copied into results; they are kept as their UTF-8 bytes. A float literal is the
  binary64 value nearest to its decimal.
\<close>

definition PHYSICS_CONSTANTS :: "(string \<times> dict) list" where
  "PHYSICS_CONSTANTS =
     [(''g'',
       [(''value'', PFloat (Fin (double_of (981 / 100)))),
        (''unit'', PStr (''m/s'' @ [CHR 0xC2, CHR 0xB2])),
        (''description'', PStr (''Acceleration due to gravity on Earth''))]),
      (''c'',
       [(''value'', PInt 299792458),
        (''unit'', PStr (''m/s'')),
        (''description'', PStr (''Speed of light in vacuum''))]),
      (''G'',
       [(''value'', PFloat (Fin (double_of (66743 / 1000000000000000)))),
        (''unit'', PStr (''m'' @ [CHR 0xC2, CHR 0xB3] @ ''/(kg'' @ [CHR 0xC2, CHR 0xB7] @ ''s'' @ [CHR 0xC2, CHR 0xB2] @ '')'')),
        (''description'', PStr (''Gravitational constant''))]),
      (''h'',
       [(''value'', PFloat (Fin (double_of (132521403 / 200000000000000000000000000000000000000000)))),
        (''unit'', PStr (''J'' @ [CHR 0xC2, CHR 0xB7] @ ''s'')),
        (''description'', PStr (''Planck constant''))]),
      (''e'',
       [(''value'', PFloat (Fin (double_of (801088317 / 5000000000000000000000000000)))),
        (''unit'', PStr (''C'')),
        (''description'', PStr (''Elementary charge''))]),
      (''me'',
       [(''value'', PFloat (Fin (double_of (18218767403 / 20000000000000000000000000000000000000000)))),
        (''unit'', PStr (''kg'')),
        (''description'', PStr (''Electron mass''))]),
      (''mp'',
       [(''value'', PFloat (Fin (double_of (167262192369 / 100000000000000000000000000000000000000)))),
        (''unit'', PStr (''kg'')),
        (''description'', PStr (''Proton mass''))]),
      (''k'',
       [(''value'', PFloat (Fin (double_of (1380649 / 100000000000000000000000000000)))),
        (''unit'', PStr (''J/K'')),
        (''description'', PStr (''Boltzmann constant''))]),
      (''NA'',
       [(''value'', PFloat (Fin (double_of 602214076000000000000000))),
        (''unit'', PStr (''mol'' @ [CHR 0xE2, CHR 0x81, CHR 0xBB] @ [CHR 0xC2, CHR 0xB9])),
        (''description'', PStr (''Avogadro constant''))]),
      (''R'',
       [(''value'', PFloat (Fin (double_of (207861565453831 / 25000000000000)))),
        (''unit'', PStr (''J/(mol'' @ [CHR 0xC2, CHR 0xB7] @ ''K)'')),
        (''description'', PStr (''Gas constant''))])]"

definition PHYSICS_FORMULAS :: "(string \<times> dict) list" where
  "PHYSICS_FORMULAS =
     [(''newton_second_law'',
       [(''formula'', PStr (''F = m'' @ [CHR 0xC2, CHR 0xB7] @ ''a'')),
        (''description'', PStr (''Newton'' @ [CHR 0x27] @ ''s Second Law: Force equals mass times acceleration'')),
        (''variables'', PDict
            [(''F'', PStr (''Force (N)'')), (''m'', PStr (''Mass (kg)'')),
             (''a'', PStr (''Acceleration (m/s'' @ [CHR 0xC2, CHR 0xB2] @ '')''))])]),
      (''kinetic_energy'',
       [(''formula'', PStr (''KE = 0.5'' @ [CHR 0xC2, CHR 0xB7] @ ''m'' @ [CHR 0xC2, CHR 0xB7] @ ''v'' @ [CHR 0xC2, CHR 0xB2])),
        (''description'', PStr (''Kinetic Energy: The energy of motion'')),
        (''variables'', PDict
            [(''KE'', PStr (''Kinetic Energy (J)'')), (''m'', PStr (''Mass (kg)'')),
             (''v'', PStr (''Velocity (m/s)''))])]),
      (''potential_energy_gravitational'',
       [(''formula'', PStr (''PE = m'' @ [CHR 0xC2, CHR 0xB7] @ ''g'' @ [CHR 0xC2, CHR 0xB7] @ ''h'')),
        (''description'', PStr (''Gravitational Potential Energy: Energy due to position in a gravitational field'')),
        (''variables'', PDict
            [(''PE'', PStr (''Potential Energy (J)'')), (''m'', PStr (''Mass (kg)'')),
             (''g'', PStr (''Gravitational acceleration (m/s'' @ [CHR 0xC2, CHR 0xB2] @ '')'')),
             (''h'', PStr (''Height (m)''))])]),
      (''momentum'',
       [(''formula'', PStr (''p = m'' @ [CHR 0xC2, CHR 0xB7] @ ''v'')),
        (''description'', PStr (''Momentum: Product of mass and velocity'')),
        (''variables'', PDict
            [(''p'', PStr (''Momentum (kg'' @ [CHR 0xC2, CHR 0xB7] @ ''m/s)'')),
             (''m'', PStr (''Mass (kg)'')), (''v'', PStr (''Velocity (m/s)''))])]),
      (''uniform_acceleration'',
       [(''formula'', PStr (''v = v'' @ [CHR 0xE2, CHR 0x82, CHR 0x80] @ '' + a'' @ [CHR 0xC2, CHR 0xB7] @ ''t'')),
        (''description'', PStr (''Velocity with uniform acceleration'')),
        (''variables'', PDict
            [(''v'', PStr (''Final velocity (m/s)'')),
             (''v'' @ [CHR 0xE2, CHR 0x82, CHR 0x80], PStr (''Initial velocity (m/s)'')),
             (''a'', PStr (''Acceleration (m/s'' @ [CHR 0xC2, CHR 0xB2] @ '')'')),
             (''t'', PStr (''Time (s)''))])]),
      (''uniform_acceleration_distance'',
       [(''formula'', PStr (''d = v'' @ [CHR 0xE2, CHR 0x82, CHR 0x80] @ [CHR 0xC2, CHR 0xB7] @ ''t + 0.5'' @ [CHR 0xC2, CHR 0xB7] @ ''a'' @ [CHR 0xC2, CHR 0xB7] @ ''t'' @ [CHR 0xC2, CHR 0xB2])),
        (''description'', PStr (''Distance with uniform acceleration'')),
        (''variables'', PDict
            [(''d'', PStr (''Distance (m)'')),
             (''v'' @ [CHR 0xE2, CHR 0x82, CHR 0x80], PStr (''Initial velocity (m/s)'')),
             (''a'', PStr (''Acceleration (m/s'' @ [CHR 0xC2, CHR 0xB2] @ '')'')),
             (''t'', PStr (''Time (s)''))])]),
      (''work'',
       [(''formula'', PStr (''W = F'' @ [CHR 0xC2, CHR 0xB7] @ ''d'' @ [CHR 0xC2, CHR 0xB7] @ ''cos('' @ [CHR 0xCE, CHR 0xB8] @ '')'')),
        (''description'', PStr (''Work done by a constant force'')),
        (''variables'', PDict
            [(''W'', PStr (''Work (J)'')), (''F'', PStr (''Force (N)'')),
             (''d'', PStr (''Distance (m)'')),
             ([CHR 0xCE, CHR 0xB8], PStr (''Angle between force and displacement (rad)''))])]),
      (''power'',
       [(''formula'', PStr (''P = W/t'')),
        (''description'', PStr (''Power: Rate of doing work'')),
        (''variables'', PDict
            [(''P'', PStr (''Power (W)'')), (''W'', PStr (''Work (J)'')),
             (''t'', PStr (''Time (s)''))])]),
      (''ohms_law'',
       [(''formula'', PStr (''V = I'' @ [CHR 0xC2, CHR 0xB7] @ ''R'')),
        (''description'', PStr (''Ohm'' @ [CHR 0x27] @ ''s Law: Relationship between voltage, current, and resistance'')),
        (''variables'', PDict
            [(''V'', PStr (''Voltage (V)'')), (''I'', PStr (''Current (A)'')),
             (''R'', PStr (''Resistance ('' @ [CHR 0xCE, CHR 0xA9] @ '')''))])]),
      (''universal_gravitation'',
       [(''formula'', PStr (''F = G'' @ [CHR 0xC2, CHR 0xB7] @ ''(m'' @ [CHR 0xE2, CHR 0x82, CHR 0x81] @ [CHR 0xC2, CHR 0xB7] @ ''m'' @ [CHR 0xE2, CHR 0x82, CHR 0x82] @ '')/r'' @ [CHR 0xC2, CHR 0xB2])),
        (''description'', PStr (''Newton'' @ [CHR 0x27] @ ''s Law of Universal Gravitation'')),
        (''variables'', PDict
            [(''F'', PStr (''Force (N)'')),
             (''G'', PStr (''Gravitational constant (m'' @ [CHR 0xC2, CHR 0xB3] @ ''/(kg'' @ [CHR 0xC2, CHR 0xB7] @ ''s'' @ [CHR 0xC2, CHR 0xB2] @ ''))'')),
             (''m'' @ [CHR 0xE2, CHR 0x82, CHR 0x81], PStr (''Mass 1 (kg)'')),
             (''m'' @ [CHR 0xE2, CHR 0x82, CHR 0x82], PStr (''Mass 2 (kg)'')),
             (''r'', PStr (''Distance between centers (m)''))])])]"

section \<open>The lookup tool (src/tools/lookup.py)\<close>

record LookupTool =
  constants :: "(string \<times> dict) list"
  formulas :: "(string \<times> dict) list"

definition LookupTool_init :: LookupTool where
  \<comment> \<open>\<^verbatim>\<open>self.constants = settings.PHYSICS_CONSTANTS\<close>, \<^verbatim>\<open>self.formulas = settings.PHYSICS_FORMULAS\<close>\<close>
  "LookupTool_init = \<lparr>constants = PHYSICS_CONSTANTS, formulas = PHYSICS_FORMULAS\<rparr>"

text \<open>
  What \<open>execute\<close> can raise. The first three are the \<open>ToolError\<close>s of the source, by
  raise site; \<open>KeyNotStr\<close> is the \<open>TypeError\<close> or \<open>AttributeError\<close> of a non-empty key
  that is not a string; \<open>ZeroDivision\<close> is the \<open>ZeroDivisionError\<close> of a score.
\<close>

datatype lookup_error =
    MissingKey
  | InvalidLookupType pyval
  | NoMatchFound string string
  | KeyNotStr pyval
  | ZeroDivision

fun is_ToolError :: "lookup_error \<Rightarrow> bool" where
  "is_ToolError MissingKey = True"
| "is_ToolError (InvalidLookupType v) = True"
| "is_ToolError (NoMatchFound t k) = True"
| "is_ToolError (KeyNotStr v) = False"
| "is_ToolError ZeroDivision = False"

fun truthy :: "pyval \<Rightarrow> bool" where
  "truthy PNone = False"
| "truthy (PBool b) = b"
| "truthy (PInt i) = (i \<noteq> 0)"
| "truthy (PFloat f) = (f \<noteq> Fin 0)"
| "truthy (PStr s) = (s \<noteq> [])"
| "truthy (PList xs) = (xs \<noteq> [])"
| "truthy (PDict kvs) = (kvs \<noteq> [])"

fun case_insensitive_match :: "string \<Rightarrow> string list \<Rightarrow> string option" where
  \<comment> \<open>the first key whose lower-cased form is \<open>key_lower\<close>\<close>
  "case_insensitive_match key_lower [] = None"
| "case_insensitive_match key_lower (k # ks) =
     (if lower k = key_lower then Some k else case_insensitive_match key_lower ks)"

fun partial_match ::
  "string \<Rightarrow> string list \<Rightarrow> string option \<times> rat \<Rightarrow> lookup_error + (string option \<times> rat)" where
  \<comment> \<open>the partial-match loop, from the state \<open>(best_match, best_score)\<close>\<close>
  "partial_match key_lower [] best = Inr best"
| "partial_match key_lower (k # ks) (best_match, best_score) =
     (if str_in key_lower (lower k) then
        (if length (lower k) = 0 then Inl ZeroDivision
         else let score = fdiv (of_nat (length key_lower)) (of_nat (length (lower k)))
              in partial_match key_lower ks
                   (if best_score < score then (Some k, score) else (best_match, best_score)))
      else if str_in (lower k) key_lower then
        (if length key_lower = 0 then Inl ZeroDivision
         else let score = fdiv (of_nat (length (lower k))) (of_nat (length key_lower))
              in partial_match key_lower ks
                   (if best_score < score then (Some k, score) else (best_match, best_score)))
      else partial_match key_lower ks (best_match, best_score))"

definition fuzzy_match ::
  "string \<Rightarrow> (string \<times> dict) list \<Rightarrow> lookup_error + (string option \<times> rat)" where
  "fuzzy_match key collection =
     (if key \<in> set (map fst collection) then Inr (Some key, 1)
      else
        (case case_insensitive_match (lower key) (map fst collection) of
           Some k \<Rightarrow> Inr (Some k, double_of (9 / 10))
         | None \<Rightarrow>
             (case partial_match (lower key) (map fst collection) (None, 0) of
                Inl e \<Rightarrow> Inl e
              | Inr (best_match, best_score) \<Rightarrow>
                  if (case best_match of None \<Rightarrow> False | Some m \<Rightarrow> m \<noteq> [])
                     \<and> double_of (5 / 10) < best_score
                  then Inr (best_match, best_score)
                  else Inr (None, 0))))"

definition dict_get :: "dict \<Rightarrow> string \<Rightarrow> pyval" where
  \<comment> \<open>\<^verbatim>\<open>d.get(k)\<close>: \<open>None\<close> when the key is absent\<close>
  "dict_get d k = (case map_of d k of None \<Rightarrow> PNone | Some v \<Rightarrow> v)"

definition dict_get_default :: "dict \<Rightarrow> string \<Rightarrow> pyval \<Rightarrow> pyval" where
  "dict_get_default d k dflt = (case map_of d k of None \<Rightarrow> dflt | Some v \<Rightarrow> v)"

definition LookupTool_execute :: "LookupTool \<Rightarrow> dict \<Rightarrow> lookup_error + dict" where
  "LookupTool_execute tool inputs =
     (let key = dict_get_default inputs ''key'' (PStr []);
          lookup_type = dict_get_default inputs ''type'' (PStr ''constant'')
      in if \<not> truthy key then Inl MissingKey
         else if lookup_type \<noteq> PStr ''constant'' \<and> lookup_type \<noteq> PStr ''formula''
         then Inl (InvalidLookupType lookup_type)
         else
           (case key of
              PStr k \<Rightarrow>
                (let collection =
                       (if lookup_type = PStr ''constant'' then constants tool else formulas tool)
                 in case fuzzy_match k collection of
                      Inl e \<Rightarrow> Inl e
                    | Inr (matched_key, confidence) \<Rightarrow>
                        (case matched_key of
                           None \<Rightarrow>
                             Inl (NoMatchFound
                                    (if lookup_type = PStr ''constant'' then ''constant''
                                     else ''formula'') k)
                         | Some m \<Rightarrow>
                             if m = [] then
                               Inl (NoMatchFound
                                      (if lookup_type = PStr ''constant'' then ''constant''
                                       else ''formula'') k)
                             else
                               (let result = (case map_of collection m of None \<Rightarrow> [] | Some e \<Rightarrow> e);
                                    tool_result =
                                      (if lookup_type = PStr ''constant'' then
                                         [(''key'', PStr m), (''type'', PStr ''constant''),
                                          (''value'', dict_get result ''value''),
                                          (''unit'', dict_get result ''unit''),
                                          (''description'', dict_get result ''description'')]
                                       else
                                         [(''key'', PStr m), (''type'', PStr ''formula''),
                                          (''formula'', dict_get result ''formula''),
                                          (''description'', dict_get result ''description''),
                                          (''variables'', dict_get result ''variables'')])
                                in Inr (if confidence < 1
                                        then tool_result
                                             @ [(''match_confidence'', PFloat (Fin confidence)),
                                                (''original_query'', PStr k)]
                                        else tool_result))))
            | v \<Rightarrow> Inl (KeyNotStr v)))"

text \<open>
  The similarity of a key to one candidate, as the three stages of the matching score it,
  and the best similarity over a collection.
\<close>

definition similarity :: "string \<Rightarrow> string \<Rightarrow> rat" where
  "similarity key k =
     (if k = key then 1
      else if lower k = lower key then double_of (9 / 10)
      else if str_in (lower key) (lower k)
      then fdiv (of_nat (length (lower key))) (of_nat (length (lower k)))
      else if str_in (lower k) (lower key)
      then fdiv (of_nat (length (lower k))) (of_nat (length (lower key)))
      else 0)"

definition best_similarity :: "string \<Rightarrow> (string \<times> dict) list \<Rightarrow> rat" where
  "best_similarity key collection = fold (\<lambda>k best. max best (similarity key k)) (map fst collection) 0"

definition collection_of :: "LookupTool \<Rightarrow> string \<Rightarrow> (string \<times> dict) list" where
  \<comment> \<open>\<^verbatim>\<open>self.constants if lookup_type == 'constant' else self.formulas\<close>\<close>
  "collection_of tool lookup_type =
     (if lookup_type = ''constant'' then constants tool else formulas tool)"

section \<open>The regular expressions the tools and agents use (Python's \<open>re\<close>)\<close>

text \<open>
  The patterns of the source are written in a small part of the syntax of \<open>re\<close>:
  literals, escapes (\<open>\d\<close>, \<open>\s\<close>, escaped punctuation), \<open>.\<close>, character sets with
  ranges and negation, \<open>^\<close>, \<open>$\<close>, the greedy repeats \<open>*\<close> and \<open>+\<close>, alternation,
  capturing groups and the negative lookahead. \<open>re_compile\<close> parses that part and
  reports the errors \<open>re\<close> reports for it, with their positions; what lies outside it is
  \<open>Unsupported\<close>. A character set is a list of ranges of code points.
\<close>

datatype re =
    Cls bool "(nat \<times> nat) list"
  | Bol
  | Eol
  | Eps
  | Cat re re
  | Alt re re
  | Rep nat re
  | Grp nat re
  | NotAhead re

datatype re_error = ReError string nat | Unsupported

definition re_error_text :: "re_error \<Rightarrow> string" where
  \<comment> \<open>\<^verbatim>\<open>str(e)\<close> of an \<open>re.error\<close>\<close>
  "re_error_text e =
     (case e of
        ReError msg pos \<Rightarrow> msg @ '' at position '' @ string_of_nat pos
      | Unsupported \<Rightarrow> ''unsupported pattern'')"

definition BS :: string where
  \<comment> \<open>the backslash\<close>
  "BS = [CHR 0x5C]"

definition SQ :: string where
  \<comment> \<open>the single quote\<close>
  "SQ = [CHR 0x27]"

definition digit_ranges :: "(nat \<times> nat) list" where
  "digit_ranges = [(48, 57)]"

definition space_ranges :: "(nat \<times> nat) list" where
  "space_ranges = [(9, 13), (28, 32), (133, 133), (160, 160)]"

definition is_ascii_letter :: "nat \<Rightarrow> bool" where
  "is_ascii_letter n = ((65 \<le> n \<and> n \<le> 90) \<or> (97 \<le> n \<and> n \<le> 122))"

definition literal :: "bool \<Rightarrow> char \<Rightarrow> re" where
  \<comment> \<open>a literal character; with \<open>IGNORECASE\<close> an ASCII letter stands for both cases\<close>
  "literal ic c =
     (let n = (of_char c :: nat)
      in if ic \<and> is_ascii_letter n
         then Cls False [(n, n), (if n < 97 then (n + 32, n + 32) else (n - 32, n - 32))]
         else Cls False [(n, n)])"

definition is_punct :: "char \<Rightarrow> bool" where
  \<comment> \<open>a character that can be escaped to stand for itself\<close>
  "is_punct c = (c \<in> set ''+-*/^().[]$|?{}'' \<or> c = CHR 0x5C \<or> c = CHR 0x27)"

fun parse_set :: "string \<Rightarrow> (nat \<times> nat) list \<Rightarrow> ((nat \<times> nat) list \<times> string) option" where
  \<comment> \<open>the items of a character set after \<open>[\<close> (and \<open>^\<close>), up to the closing \<open>]\<close>\<close>
  "parse_set [] acc = None"
| "parse_set (c # cs) acc =
     (if c = CHR '']'' then Some (acc, cs)
      else if c = CHR 0x5C then
        (case cs of
           [] \<Rightarrow> None
         | e # cs' \<Rightarrow>
             if e = CHR ''d'' then parse_set cs' (acc @ digit_ranges)
             else if e = CHR ''s'' then parse_set cs' (acc @ space_ranges)
             else if is_punct e then parse_set cs' (acc @ [(of_char e, of_char e)])
             else None)
      else
        (case cs of
           m # hi # cs' \<Rightarrow>
             if m = CHR ''-'' \<and> hi \<noteq> CHR '']'' \<and> hi \<noteq> CHR 0x5C
             then parse_set cs' (acc @ [(of_char c, of_char hi)])
             else parse_set cs (acc @ [(of_char c, of_char c)])
         | _ \<Rightarrow> parse_set cs (acc @ [(of_char c, of_char c)])))"

fun seq_of :: "re list \<Rightarrow> re" where
  "seq_of [] = Eps"
| "seq_of [r] = r"
| "seq_of (r # rs) = Cat r (seq_of rs)"

fun is_at :: "re \<Rightarrow> bool" where
  "is_at Bol = True"
| "is_at Eol = True"
| "is_at _ = False"

fun is_repeat :: "re \<Rightarrow> bool" where
  "is_repeat (Rep n r) = True"
| "is_repeat _ = False"

text \<open>
  The parser. \<open>n\<close> is the length of the whole pattern, so that \<open>n - length cs\<close> is the
  position of the head of \<open>cs\<close>; \<open>acc\<close> holds the items of the current sequence, last
  first; \<open>ng\<close> counts the capturing groups opened so far. The first argument bounds the
  depth of the recursion.
\<close>

fun parse_alt :: "nat \<Rightarrow> nat \<Rightarrow> bool \<Rightarrow> string \<Rightarrow> nat \<Rightarrow> re_error + (re \<times> string \<times> nat)"
and parse_seq ::
  "nat \<Rightarrow> nat \<Rightarrow> bool \<Rightarrow> string \<Rightarrow> re list \<Rightarrow> nat \<Rightarrow> re_error + (re \<times> string \<times> nat)" where
  "parse_alt 0 n ic cs ng = Inl Unsupported"
| "parse_alt (Suc f) n ic cs ng =
     (case parse_seq f n ic cs [] ng of
        Inl e \<Rightarrow> Inl e
      | Inr (a, rest, ng') \<Rightarrow>
          (case rest of
             [] \<Rightarrow> Inr (a, rest, ng')
           | c # rest' \<Rightarrow>
               if c = CHR ''|'' then
                 (case parse_alt f n ic rest' ng' of
                    Inl e \<Rightarrow> Inl e
                  | Inr (b, rest'', ng'') \<Rightarrow> Inr (Alt a b, rest'', ng''))
               else Inr (a, rest, ng')))"
| "parse_seq 0 n ic cs acc ng = Inl Unsupported"
| "parse_seq (Suc f) n ic cs acc ng =
     (case cs of
        [] \<Rightarrow> Inr (seq_of (rev acc), [], ng)
      | c # cs' \<Rightarrow>
          if c = CHR ''|'' \<or> c = CHR '')'' then Inr (seq_of (rev acc), cs, ng)
          else if c = CHR ''*'' \<or> c = CHR ''+'' then
            (case acc of
               [] \<Rightarrow> Inl (ReError ''nothing to repeat'' (n - length cs))
             | item # acc' \<Rightarrow>
                 if is_at item then Inl (ReError ''nothing to repeat'' (n - length cs))
                 else if is_repeat item then Inl (ReError ''multiple repeat'' (n - length cs))
                 else parse_seq f n ic cs' (Rep (if c = CHR ''*'' then 0 else 1) item # acc') ng)
          else if c = CHR ''?'' \<or> c = CHR ''{'' then Inl Unsupported
          else if c = CHR ''('' then
            (case cs' of
               q # cs'' \<Rightarrow>
                 if q = CHR ''?'' then
                   (case cs'' of
                      x # cs''' \<Rightarrow>
                        if x = CHR ''!'' then
                          (case parse_alt f n ic cs''' ng of
                             Inl e \<Rightarrow> Inl e
                           | Inr (r, rest, ng') \<Rightarrow>
                               (case rest of
                                  [] \<Rightarrow>
                                    Inl (ReError ''missing ), unterminated subpattern''
                                           (n - length cs))
                                | _ # rest' \<Rightarrow> parse_seq f n ic rest' (NotAhead r # acc) ng'))
                        else Inl Unsupported
                    | [] \<Rightarrow> Inl Unsupported)
                 else
                   (case parse_alt f n ic cs' (Suc ng) of
                      Inl e \<Rightarrow> Inl e
                    | Inr (r, rest, ng') \<Rightarrow>
                        (case rest of
                           [] \<Rightarrow>
                             Inl (ReError ''missing ), unterminated subpattern'' (n - length cs))
                         | _ # rest' \<Rightarrow> parse_seq f n ic rest' (Grp (Suc ng) r # acc) ng'))
             | [] \<Rightarrow> Inl (ReError ''missing ), unterminated subpattern'' (n - length cs)))
          else if c = CHR ''['' then
            (case (case cs' of
                     [] \<Rightarrow> None
                   | x # cs'' \<Rightarrow>
                       if x = CHR ''^'' then map_option (\<lambda>(rs, rest). (Cls True rs, rest)) (parse_set cs'' [])
                       else map_option (\<lambda>(rs, rest). (Cls False rs, rest)) (parse_set cs' [])) of
               None \<Rightarrow> Inl (ReError ''unterminated character set'' (n - length cs))
             | Some (cls, rest) \<Rightarrow> parse_seq f n ic rest (cls # acc) ng)
          else if c = CHR 0x5C then
            (case cs' of
               [] \<Rightarrow> Inl (ReError ''bad escape (end of pattern)'' (n - length cs))
             | e # cs'' \<Rightarrow>
                 if e = CHR ''d'' then parse_seq f n ic cs'' (Cls False digit_ranges # acc) ng
                 else if e = CHR ''s'' then parse_seq f n ic cs'' (Cls False space_ranges # acc) ng
                 else if is_punct e then parse_seq f n ic cs'' (Cls False [(of_char e, of_char e)] # acc) ng
                 else Inl Unsupported)
          else if c = CHR ''^'' then parse_seq f n ic cs' (Bol # acc) ng
          else if c = CHR ''$'' then parse_seq f n ic cs' (Eol # acc) ng
          else if c = CHR ''.'' then parse_seq f n ic cs' (Cls True [(10, 10)] # acc) ng
          else parse_seq f n ic cs' (literal ic c # acc) ng)"

definition re_compile :: "bool \<Rightarrow> string \<Rightarrow> re_error + (re \<times> nat)" where
  \<comment> \<open>the compiled pattern and its number of capturing groups; the flag is \<open>IGNORECASE\<close>\<close>
  "re_compile ic p =
     (case parse_alt (2 * length p + 2) (length p) ic p 0 of
        Inl e \<Rightarrow> Inl e
      | Inr (r, rest, ng) \<Rightarrow>
          if rest = [] then Inr (r, ng)
          else Inl (ReError ''unbalanced parenthesis'' (length p - length rest)))"

text \<open>
  Matching by backtracking. A state is a position in the subject and the spans of the
  groups closed so far; \<open>matches\<close> lists the states a pattern can end in, in the order
  the backtracking tries them (greedy repeats first, left alternative first).
\<close>

type_synonym mstate = "nat \<times> (nat \<times> nat \<times> nat) list"

fun in_ranges :: "nat \<Rightarrow> (nat \<times> nat) list \<Rightarrow> bool" where
  "in_ranges n [] = False"
| "in_ranges n ((lo, hi) # rs) = ((lo \<le> n \<and> n \<le> hi) \<or> in_ranges n rs)"

fun repeat_from :: "nat \<Rightarrow> (mstate \<Rightarrow> mstate list) \<Rightarrow> nat \<Rightarrow> mstate \<Rightarrow> mstate list" where
  \<comment> \<open>at least \<open>k\<close> more iterations of \<open>step\<close>, as many as possible first; an iteration
      has to consume something, so the length of the subject bounds their number\<close>
  "repeat_from 0 step k st = (if k = 0 then [st] else [])"
| "repeat_from (Suc fuel) step k st =
     concat (map (repeat_from fuel step (k - 1)) (filter (\<lambda>st'. fst st < fst st') (step st)))
     @ (if k = 0 then [st] else [])"

primrec matches :: "string \<Rightarrow> re \<Rightarrow> mstate \<Rightarrow> mstate list" where
  "matches s (Cls neg rs) =
     (\<lambda>st. if fst st < length s \<and> (in_ranges (of_char (s ! fst st)) rs \<noteq> neg)
           then [(Suc (fst st), snd st)] else [])"
| "matches s Bol = (\<lambda>st. if fst st = 0 then [st] else [])"
| "matches s Eol =
     (\<lambda>st. if fst st = length s \<or> (Suc (fst st) = length s \<and> s ! fst st = CHR 0x0A)
           then [st] else [])"
| "matches s Eps = (\<lambda>st. [st])"
| "matches s (Cat a b) = (\<lambda>st. concat (map (matches s b) (matches s a st)))"
| "matches s (Alt a b) = (\<lambda>st. matches s a st @ matches s b st)"
| "matches s (Rep k r) = (\<lambda>st. repeat_from (length s) (matches s r) k st)"
| "matches s (Grp i r) =
     (\<lambda>st. map (\<lambda>st'. (fst st', (i, fst st, fst st') # snd st')) (matches s r st))"
| "matches s (NotAhead r) = (\<lambda>st. if matches s r st = [] then [st] else [])"

text \<open>
  A match object: start, end, and the spans of the groups. \<open>match_at\<close> is the first
  match that starts at a position; \<open>search_from\<close> scans the positions from left to
  right.
\<close>

type_synonym match = "nat \<times> nat \<times> (nat \<times> nat \<times> nat) list"

definition match_at :: "re \<Rightarrow> string \<Rightarrow> nat \<Rightarrow> match option" where
  "match_at r s p =
     (case matches s r (p, []) of [] \<Rightarrow> None | st # _ \<Rightarrow> Some (p, fst st, snd st))"

fun search_from :: "nat \<Rightarrow> re \<Rightarrow> string \<Rightarrow> nat \<Rightarrow> match option" where
  "search_from 0 r s p = match_at r s p"
| "search_from (Suc fuel) r s p =
     (case match_at r s p of Some m \<Rightarrow> Some m | None \<Rightarrow> search_from fuel r s (Suc p))"

definition slice :: "string \<Rightarrow> nat \<Rightarrow> nat \<Rightarrow> string" where
  \<comment> \<open>\<^verbatim>\<open>s[a:b]\<close>\<close>
  "slice s a b = take (b - a) (drop a s)"

definition re_match :: "string \<Rightarrow> string \<Rightarrow> re_error + match option" where
  \<comment> \<open>\<^verbatim>\<open>re.match(pattern, s)\<close>\<close>
  "re_match p s =
     (case re_compile False p of Inl e \<Rightarrow> Inl e | Inr (r, ng) \<Rightarrow> Inr (match_at r s 0))"

definition re_search :: "string \<Rightarrow> string \<Rightarrow> re_error + match option" where
  \<comment> \<open>\<^verbatim>\<open>re.search(pattern, s)\<close>\<close>
  "re_search p s =
     (case re_compile False p of
        Inl e \<Rightarrow> Inl e
      | Inr (r, ng) \<Rightarrow> Inr (search_from (length s) r s 0))"

fun findall_from :: "nat \<Rightarrow> re \<Rightarrow> string \<Rightarrow> nat \<Rightarrow> string list" where
  \<comment> \<open>the non-overlapping matches from a position on, for a pattern without groups\<close>
  "findall_from 0 r s p = []"
| "findall_from (Suc fuel) r s p =
     (if length s < p then []
      else
        (case match_at r s p of
           None \<Rightarrow> findall_from fuel r s (Suc p)
         | Some (a, b, g) \<Rightarrow>
             slice s a b # findall_from fuel r s (if b = a then Suc p else b)))"

definition re_findall :: "string \<Rightarrow> string \<Rightarrow> re_error + string list" where
  \<comment> \<open>\<^verbatim>\<open>re.findall(pattern, s)\<close>\<close>
  "re_findall p s =
     (case re_compile False p of
        Inl e \<Rightarrow> Inl e
      | Inr (r, ng) \<Rightarrow> Inr (findall_from (Suc (length s)) r s 0))"

fun sub_from :: "nat \<Rightarrow> re \<Rightarrow> string \<Rightarrow> string \<Rightarrow> nat \<Rightarrow> string" where
  \<comment> \<open>the subject from a position on, every non-overlapping match replaced\<close>
  "sub_from 0 r repl s p = drop p s"
| "sub_from (Suc fuel) r repl s p =
     (if length s \<le> p then
        (case match_at r s p of None \<Rightarrow> [] | Some m \<Rightarrow> if p = length s then repl else [])
      else
        (case match_at r s p of
           None \<Rightarrow> s ! p # sub_from fuel r repl s (Suc p)
         | Some (a, b, g) \<Rightarrow>
             if b = a then repl @ (s ! p # sub_from fuel r repl s (Suc p))
             else repl @ sub_from fuel r repl s b))"

definition re_sub :: "bool \<Rightarrow> string \<Rightarrow> string \<Rightarrow> string \<Rightarrow> re_error + string" where
  \<comment> \<open>\<^verbatim>\<open>re.sub(pattern, repl, s)\<close>, with the flag \<open>IGNORECASE\<close> or not; \<open>repl\<close> is plain text\<close>
  "re_sub ic p repl s =
     (case re_compile ic p of
        Inl e \<Rightarrow> Inl e
      | Inr (r, ng) \<Rightarrow> Inr (sub_from (Suc (length s)) r repl s 0))"

section \<open>The calculator tool (src/tools/calculator.py)\<close>

text \<open>
  What a tool or an agent of the source can raise, as far as the model follows it: a
  \<open>ToolError\<close> with its message, an \<open>re.error\<close>, or another exception with its text.
\<close>

datatype py_exn = ToolError string | RegexError re_error | OtherError string

definition exn_text :: "py_exn \<Rightarrow> string" where
  \<comment> \<open>\<^verbatim>\<open>str(e)\<close>\<close>
  "exn_text e =
     (case e of ToolError m \<Rightarrow> m | RegexError r \<Rightarrow> re_error_text r | OtherError m \<Rightarrow> m)"

definition allowed_symbols :: "string list" where
  \<comment> \<open>the keys of \<open>self.allowed_symbols\<close>, in the order of the dictionary\<close>
  "allowed_symbols =
     [''+'', ''-'', ''*'', ''/'', ''**'', ''^'',
      ''sqrt'', ''exp'', ''log'', ''sin'', ''cos'', ''tan'', ''asin'', ''acos'', ''atan'',
      ''pi'', ''e'', ''('', '')'',
      BS @ ''d+'', BS @ ''d+'' @ BS @ ''.'' @ BS @ ''d+'', ''[a-zA-Z]'']"

definition token_pattern :: string where
  \<comment> \<open>\<^verbatim>\<open>r'[+\-*/^()]|\d+\.\d+|\d+|[a-zA-Z]+'\<close>\<close>
  "token_pattern =
     ''[+'' @ BS @ ''-*/^()]|'' @ BS @ ''d+'' @ BS @ ''.'' @ BS @ ''d+|'' @ BS @ ''d+|[a-zA-Z]+''"

definition zero_divisor_pattern :: string where
  \<comment> \<open>\<^verbatim>\<open>r'/\s*0(?![.\d])'\<close>\<close>
  "zero_divisor_pattern = ''/'' @ BS @ ''s*0(?![.'' @ BS @ ''d])''"

definition digits_pattern :: string where
  \<comment> \<open>\<^verbatim>\<open>r'^\d+$'\<close>\<close>
  "digits_pattern = ''^'' @ BS @ ''d+$''"

definition decimal_pattern :: string where
  \<comment> \<open>\<^verbatim>\<open>r'^\d+\.\d+$'\<close>\<close>
  "decimal_pattern = ''^'' @ BS @ ''d+'' @ BS @ ''.'' @ BS @ ''d+$''"

definition is_number_token :: "string \<Rightarrow> re_error + bool" where
  \<comment> \<open>\<^verbatim>\<open>re.match(r'^\d+$', token) or re.match(r'^\d+\.\d+$', token)\<close>\<close>
  "is_number_token token =
     (case re_match digits_pattern token of
        Inl e \<Rightarrow> Inl e
      | Inr (Some m) \<Rightarrow> Inr True
      | Inr None \<Rightarrow>
          (case re_match decimal_pattern token of
             Inl e \<Rightarrow> Inl e
           | Inr (Some m) \<Rightarrow> Inr True
           | Inr None \<Rightarrow> Inr False))"

fun token_allowed :: "string list \<Rightarrow> string \<Rightarrow> re_error + bool" where
  \<comment> \<open>the loop over the patterns: \<^verbatim>\<open>re.match(f'^{pattern}$', token)\<close>\<close>
  "token_allowed [] token = Inr False"
| "token_allowed (pattern # patterns) token =
     (case re_match (''^'' @ pattern @ ''$'') token of
        Inl e \<Rightarrow> Inl e
      | Inr (Some m) \<Rightarrow> Inr True
      | Inr None \<Rightarrow> token_allowed patterns token)"

fun check_tokens :: "string list \<Rightarrow> re_error + string option" where
  \<comment> \<open>the loop over the tokens: the first disallowed token, if any\<close>
  "check_tokens [] = Inr None"
| "check_tokens (token # tokens) =
     (case is_number_token token of
        Inl e \<Rightarrow> Inl e
      | Inr True \<Rightarrow> check_tokens tokens
      | Inr False \<Rightarrow>
          (case token_allowed allowed_symbols token of
             Inl e \<Rightarrow> Inl e
           | Inr True \<Rightarrow> check_tokens tokens
           | Inr False \<Rightarrow> Inr (Some token)))"

definition validate_expression :: "pyval \<Rightarrow> py_exn + (bool \<times> string)" where
  \<comment> \<open>\<open>(is_valid, error_message)\<close>; the message is empty when valid\<close>
  "validate_expression expression =
     (if \<not> truthy expression then Inr (False, ''Expression cannot be empty'')
      else
        (case expression of
           PStr s \<Rightarrow>
             if strip s = [] then Inr (False, ''Expression cannot be empty'')
             else
               (case re_findall token_pattern s of
                  Inl e \<Rightarrow> Inl (RegexError e)
                | Inr tokens \<Rightarrow>
                    (case check_tokens tokens of
                       Inl e \<Rightarrow> Inl (RegexError e)
                     | Inr (Some token) \<Rightarrow>
                         Inr (False, ''Disallowed symbol or function: '' @ token)
                     | Inr None \<Rightarrow>
                         if length (filter (\<lambda>c. c = CHR ''('') s)
                              \<noteq> length (filter (\<lambda>c. c = CHR '')'') s)
                         then Inr (False, ''Unbalanced parentheses'')
                         else
                           (case re_search zero_divisor_pattern s of
                              Inl e \<Rightarrow> Inl (RegexError e)
                            | Inr (Some m) \<Rightarrow> Inr (False, ''Division by zero'')
                            | Inr None \<Rightarrow> Inr (True, []))))
         | v \<Rightarrow> Inl (OtherError (no_attribute v ''strip''))))"

definition preprocess_expression :: "string \<Rightarrow> string" where
  \<comment> \<open>\<^verbatim>\<open>expression.replace('^', '**').strip()\<close>\<close>
  "preprocess_expression s = strip (concat (map (\<lambda>c. if c = CHR ''^'' then ''**'' else [c]) s))"

text \<open>
  The symbolic evaluator is an external library. \<open>evalf\<close> stands for
  \<^verbatim>\<open>float(sympy.sympify(s).evalf())\<close>: the float, or the text of the exception raised;
  \<open>steps_of\<close> stands for \<open>_generate_steps\<close>, which renders the parsed expression and
  catches what it raises.
\<close>

record Evaluator =
  evalf :: "string \<Rightarrow> string + pyfloat"
  steps_of :: "string \<Rightarrow> pyfloat \<Rightarrow> string list"

definition CalculatorTool_execute :: "Evaluator \<Rightarrow> dict \<Rightarrow> py_exn + dict" where
  "CalculatorTool_execute ev inputs =
     (let expression = dict_get_default inputs ''expression'' (PStr [])
      in case validate_expression expression of
           Inl e \<Rightarrow> Inl e
         | Inr (is_valid, error_message) \<Rightarrow>
             if \<not> is_valid then Inl (ToolError (''Invalid expression: '' @ error_message))
             else
               (case expression of
                  PStr s \<Rightarrow>
                    (case evalf ev (preprocess_expression s) of
                       Inl e \<Rightarrow> Inl (ToolError (''Calculation failed: '' @ e))
                     | Inr result \<Rightarrow>
                         Inr [(''result'', PFloat result),
                              (''steps'', PList (map PStr (steps_of ev s result)))])
                | v \<Rightarrow> Inl (OtherError (no_attribute v ''replace''))))"

definition exact_evaluator :: Evaluator where
  \<comment> \<open>an evaluator that knows two expressions and fails on everything else\<close>
  "exact_evaluator =
     \<lparr>evalf = (\<lambda>s. if s = ''2+2'' then Inr (Fin 4) else if s = ''42'' then Inr (Fin 42)
                   else Inl ''could not parse''),
      steps_of = (\<lambda>s r. [''Calculate: '' @ s])\<rparr>"

section \<open>The Math agent (src/agents/math_agent.py)\<close>

definition calculation_patterns :: "string list" where
  "calculation_patterns =
     [BS @ ''d+'' @ BS @ ''s*['' @ BS @ ''+'' @ BS @ ''-'' @ BS @ ''*'' @ BS @ ''/'' @ BS @ ''^]''
        @ BS @ ''s*'' @ BS @ ''d+'',
      ''calculate'' @ BS @ ''s+(.+)'',
      ''compute'' @ BS @ ''s+(.+)'',
      ''evaluate'' @ BS @ ''s+(.+)'',
      ''solve'' @ BS @ ''s+(.+)'',
      ''simplify'' @ BS @ ''s+(.+)'',
      ''what'' @ BS @ ''s+is'' @ BS @ ''s+(.+)'',
      ''find'' @ BS @ ''s+the'' @ BS @ ''s+value'' @ BS @ ''s+of'' @ BS @ ''s+(.+)'',
      ''derivative'' @ BS @ ''s+of'' @ BS @ ''s+(.+)'',
      ''integral'' @ BS @ ''s+of'' @ BS @ ''s+(.+)'']"

definition standalone_pattern :: string where
  \<comment> \<open>\<^verbatim>\<open>r'^[\d\s\+\-\*\/\^\(\)\.]+$'\<close>\<close>
  "standalone_pattern =
     ''^['' @ BS @ ''d'' @ BS @ ''s'' @ BS @ ''+'' @ BS @ ''-'' @ BS @ ''*'' @ BS @ ''/''
     @ BS @ ''^'' @ BS @ ''('' @ BS @ '')'' @ BS @ ''.]+$''"

fun first_pattern_match :: "string list \<Rightarrow> string \<Rightarrow> py_exn + string option" where
  \<comment> \<open>the loop over the calculation patterns: group 1 of the first pattern that is
      found, or the whole match when the pattern has no group, stripped\<close>
  "first_pattern_match [] s = Inr None"
| "first_pattern_match (p # ps) s =
     (case re_compile False p of
        Inl e \<Rightarrow> Inl (RegexError e)
      | Inr (r, ng) \<Rightarrow>
          (case search_from (length s) r s 0 of
             None \<Rightarrow> first_pattern_match ps s
           | Some (a, b, g) \<Rightarrow>
               if 0 < ng then
                 (case map_of g 1 of
                    None \<Rightarrow> Inl (OtherError (no_attribute PNone ''strip''))
                  | Some (ga, gb) \<Rightarrow> Inr (Some (strip (slice s ga gb))))
               else Inr (Some (strip (slice s a b)))))"

definition extract_calculation_expression :: "string \<Rightarrow> py_exn + string option" where
  "extract_calculation_expression q =
     (case first_pattern_match calculation_patterns (lower q) of
        Inl e \<Rightarrow> Inl e
      | Inr (Some expression) \<Rightarrow> Inr (Some expression)
      | Inr None \<Rightarrow>
          (case re_match standalone_pattern (strip q) of
             Inl e \<Rightarrow> Inl (RegexError e)
           | Inr (Some m) \<Rightarrow> Inr (Some (strip q))
           | Inr None \<Rightarrow> Inr None))"

fun sub_all :: "(bool \<times> string \<times> string) list \<Rightarrow> string \<Rightarrow> re_error + string" where
  \<comment> \<open>a chain of \<open>re.sub\<close> calls: flag, pattern, replacement\<close>
  "sub_all [] s = Inr s"
| "sub_all ((ic, p, repl) # rest) s =
     (case re_sub ic p repl s of Inl e \<Rightarrow> Inl e | Inr s' \<Rightarrow> sub_all rest s')"

definition format_calculation_for_tool :: "string \<Rightarrow> re_error + string" where
  "format_calculation_for_tool expression =
     (case sub_all
             [(True, ''calculate'' @ BS @ ''s+'', []),
              (True, ''compute'' @ BS @ ''s+'', []),
              (True, ''evaluate'' @ BS @ ''s+'', []),
              (True, ''what'' @ BS @ ''s+is'' @ BS @ ''s+'', []),
              (True, ''find'' @ BS @ ''s+the'' @ BS @ ''s+value'' @ BS @ ''s+of'' @ BS @ ''s+'', []),
              (True, ''plus'', ''+''),
              (True, ''minus'', ''-''),
              (True, ''times'', ''*''),
              (True, ''multiplied'' @ BS @ ''s+by'', ''*''),
              (True, ''divided'' @ BS @ ''s+by'', ''/''),
              (True, ''squared'', ''^2''),
              (True, ''cubed'', ''^3''),
              (False, ''[^0-9'' @ BS @ ''+'' @ BS @ ''-'' @ BS @ ''*'' @ BS @ ''/'' @ BS @ ''^''
                      @ BS @ ''('' @ BS @ '')'' @ BS @ ''.'' @ BS @ ''s]'', [])]
             expression of
        Inl e \<Rightarrow> Inl e
      | Inr s \<Rightarrow> Inr (strip s))"

text \<open>
  \<open>_generate_response\<close> asks the text-generation oracle: given the query and the
  calculation result, if any, it returns the text or the text of the exception raised.
\<close>

type_synonym text_oracle = "string \<Rightarrow> dict option \<Rightarrow> string + string"

definition math_error_event :: "string \<Rightarrow> string \<Rightarrow> string \<Rightarrow> gen" where
  \<comment> \<open>the \<^verbatim>\<open>except Exception\<close> of \<open>run\<close>\<close>
  "math_error_event e rid tid =
     Yield (Some (ErrorEvent ''MATH_AGENT_ERROR'' (''Error in Math Agent: '' @ e) None rid tid))
       (\<lambda>_. Done)"

definition math_respond ::
  "text_oracle \<Rightarrow> string \<Rightarrow> dict option \<Rightarrow> string option \<Rightarrow> string \<Rightarrow> string \<Rightarrow> gen" where
  \<comment> \<open>generate the response and yield the final event, with or without the tool's result\<close>
  "math_respond orc q calc tool rid tid =
     (case orc q calc of
        Inl e \<Rightarrow> math_error_event e rid tid
      | Inr response \<Rightarrow>
          Yield (Some (FinalResponseEvent response ''MathAgent'' tool calc rid tid)) (\<lambda>_. Done))"

definition MathAgent_run :: "text_oracle \<Rightarrow> InvocationContext \<Rightarrow> gen" where
  "MathAgent_run orc ctx =
     (let q = query ctx; rid = request_id ctx; tid = trace_id ctx
      in case extract_calculation_expression q of
           Inl e \<Rightarrow> math_error_event (exn_text e) rid tid
         | Inr None \<Rightarrow> math_respond orc q None None rid tid
         | Inr (Some expression) \<Rightarrow>
             (case format_calculation_for_tool expression of
                Inl e \<Rightarrow> math_error_event (re_error_text e) rid tid
              | Inr formatted_expression \<Rightarrow>
                  Yield (Some (ToolInvocationEvent ''CalculatorTool''
                                 [(''expression'', PStr formatted_expression)] rid tid))
                    (\<lambda>_. Yield None
                       (\<lambda>tool_result.
                          case tool_result of
                            None \<Rightarrow> math_error_event none_event_message rid tid
                          | Some (ToolResultEvent name result err r t) \<Rightarrow>
                              (case err of
                                 None \<Rightarrow>
                                   math_respond orc q (Some result) (Some ''CalculatorTool'') rid tid
                               | Some e \<Rightarrow>
                                   if e = [] then
                                     math_respond orc q (Some result) (Some ''CalculatorTool'')
                                       rid tid
                                   else math_respond orc q None None rid tid)
                          | Some other \<Rightarrow> math_respond orc q None None rid tid))))"

section \<open>The Physics agent (src/agents/physics_agent.py)\<close>

definition constant_patterns :: "string list" where
  "constant_patterns =
     [''value'' @ BS @ ''s+of'' @ BS @ ''s+([a-zA-Z0-9'' @ BS @ ''s]+)'',
      ''what'' @ BS @ ''s+is'' @ BS @ ''s+([a-zA-Z0-9'' @ BS @ ''s]+)'',
      ''constant'' @ BS @ ''s+([a-zA-Z0-9'' @ BS @ ''s]+)'',
      ''acceleration'' @ BS @ ''s+due'' @ BS @ ''s+to'' @ BS @ ''s+gravity'',
      ''speed'' @ BS @ ''s+of'' @ BS @ ''s+light'',
      ''gravitational'' @ BS @ ''s+constant'',
      ''planck'' @ BS @ SQ @ ''s'' @ BS @ ''s+constant'',
      ''elementary'' @ BS @ ''s+charge'',
      ''electron'' @ BS @ ''s+mass'',
      ''proton'' @ BS @ ''s+mass'',
      ''boltzmann'' @ BS @ ''s+constant'',
      ''avogadro'' @ BS @ SQ @ ''s'' @ BS @ ''s+number'',
      ''gas'' @ BS @ ''s+constant'']"

definition formula_patterns :: "string list" where
  "formula_patterns =
     [''formula'' @ BS @ ''s+for'' @ BS @ ''s+([a-zA-Z0-9'' @ BS @ ''s]+)'',
      ''equation'' @ BS @ ''s+for'' @ BS @ ''s+([a-zA-Z0-9'' @ BS @ ''s]+)'',
      ''newton'' @ BS @ SQ @ ''s'' @ BS @ ''s+second'' @ BS @ ''s+law'',
      ''kinetic'' @ BS @ ''s+energy'',
      ''potential'' @ BS @ ''s+energy'',
      ''momentum'',
      ''uniform'' @ BS @ ''s+acceleration'',
      ''distance'' @ BS @ ''s+with'' @ BS @ ''s+acceleration'',
      ''work'',
      ''power'',
      ''ohm'' @ BS @ SQ @ ''s'' @ BS @ ''s+law'',
      ''universal'' @ BS @ ''s+gravitation'']"

definition physics_calculation_patterns :: "string list" where
  "physics_calculation_patterns =
     [''calculate'' @ BS @ ''s+([a-zA-Z0-9'' @ BS @ ''s]+)'',
      ''compute'' @ BS @ ''s+([a-zA-Z0-9'' @ BS @ ''s]+)'',
      ''find'' @ BS @ ''s+([a-zA-Z0-9'' @ BS @ ''s]+)'',
      ''determine'' @ BS @ ''s+([a-zA-Z0-9'' @ BS @ ''s]+)'',
      ''what'' @ BS @ ''s+is'' @ BS @ ''s+the'' @ BS @ ''s+([a-zA-Z0-9'' @ BS @ ''s]+)'',
      BS @ ''d+'' @ BS @ ''s*['' @ BS @ ''+'' @ BS @ ''-'' @ BS @ ''*'' @ BS @ ''/'' @ BS @ ''^]''
        @ BS @ ''s*'' @ BS @ ''d+'']"

text \<open>
  The conditions of the \<^verbatim>\<open>if\<close>/\<^verbatim>\<open>elif\<close> chains of the key extraction. \<open>Found p\<close>:
  \<^verbatim>\<open>re.search(p, query_lower)\<close>; \<open>Either a b\<close>: \<^verbatim>\<open>a or b\<close>; \<open>Unless a b\<close>:
  \<^verbatim>\<open>a and not b\<close>. The right operand is evaluated only when the left one leaves the
  result open.
\<close>

datatype cond = Found string | Either cond cond | Unless cond cond

fun holds :: "cond \<Rightarrow> string \<Rightarrow> py_exn + bool" where
  "holds (Found p) s =
     (case re_search p s of
        Inl e \<Rightarrow> Inl (RegexError e)
      | Inr None \<Rightarrow> Inr False
      | Inr (Some m) \<Rightarrow> Inr True)"
| "holds (Either a b) s =
     (case holds a s of Inl e \<Rightarrow> Inl e | Inr v \<Rightarrow> if v then Inr True else holds b s)"
| "holds (Unless a b) s =
     (case holds a s of
        Inl e \<Rightarrow> Inl e
      | Inr v \<Rightarrow>
          if v then (case holds b s of Inl e \<Rightarrow> Inl e | Inr w \<Rightarrow> Inr (\<not> w))
          else Inr False)"

fun first_holding :: "(cond \<times> string) list \<Rightarrow> string \<Rightarrow> py_exn + string option" where
  \<comment> \<open>the key of the first branch of the chain whose condition holds\<close>
  "first_holding [] s = Inr None"
| "first_holding ((c, key) # rest) s =
     (case holds c s of
        Inl e \<Rightarrow> Inl e
      | Inr v \<Rightarrow> if v then Inr (Some key) else first_holding rest s)"

fun first_group :: "string list \<Rightarrow> string \<Rightarrow> py_exn + string option" where
  \<comment> \<open>the loop over the general patterns: group 1, stripped, of the first pattern that
      is found and has a group\<close>
  "first_group [] s = Inr None"
| "first_group (p # ps) s =
     (case re_compile False p of
        Inl e \<Rightarrow> Inl (RegexError e)
      | Inr (r, ng) \<Rightarrow>
          (case search_from (length s) r s 0 of
             None \<Rightarrow> first_group ps s
           | Some (a, b, g) \<Rightarrow>
               if 0 < ng then
                 (case map_of g 1 of
                    None \<Rightarrow> Inl (OtherError (no_attribute PNone ''strip''))
                  | Some (ga, gb) \<Rightarrow> Inr (Some (strip (slice s ga gb))))
               else first_group ps s))"

definition extract_constant_key :: "string \<Rightarrow> py_exn + string option" where
  "extract_constant_key q =
     (case first_holding
             [(Found (''acceleration'' @ BS @ ''s+due'' @ BS @ ''s+to'' @ BS @ ''s+gravity''), ''g''),
              (Found (''speed'' @ BS @ ''s+of'' @ BS @ ''s+light''), ''c''),
              (Found (''gravitational'' @ BS @ ''s+constant''), ''G''),
              (Found (''planck'' @ BS @ SQ @ ''s'' @ BS @ ''s+constant''), ''h''),
              (Found (''elementary'' @ BS @ ''s+charge''), ''e''),
              (Found (''electron'' @ BS @ ''s+mass''), ''me''),
              (Found (''proton'' @ BS @ ''s+mass''), ''mp''),
              (Found (''boltzmann'' @ BS @ ''s+constant''), ''k''),
              (Either (Found (''avogadro'' @ BS @ SQ @ ''s'' @ BS @ ''s+number''))
                      (Found (''avogadro'' @ BS @ ''s+constant'')), ''NA''),
              (Found (''gas'' @ BS @ ''s+constant''), ''R'')]
             (lower q) of
        Inl e \<Rightarrow> Inl e
      | Inr (Some key) \<Rightarrow> Inr (Some key)
      | Inr None \<Rightarrow> first_group constant_patterns (lower q))"

definition extract_formula_key :: "string \<Rightarrow> py_exn + string option" where
  "extract_formula_key q =
     (case first_holding
             [(Found (''newton'' @ BS @ SQ @ ''s'' @ BS @ ''s+second'' @ BS @ ''s+law''),
               ''newton_second_law''),
              (Found (''kinetic'' @ BS @ ''s+energy''), ''kinetic_energy''),
              (Either (Found (''potential'' @ BS @ ''s+energy''))
                      (Found (''gravitational'' @ BS @ ''s+potential'' @ BS @ ''s+energy'')),
               ''potential_energy_gravitational''),
              (Found ''momentum'', ''momentum''),
              (Unless (Found (''uniform'' @ BS @ ''s+acceleration'')) (Found ''distance''),
               ''uniform_acceleration''),
              (Either (Found (''distance'' @ BS @ ''s+with'' @ BS @ ''s+acceleration''))
                      (Found (''distance'' @ BS @ ''s+under'' @ BS @ ''s+acceleration'')),
               ''uniform_acceleration_distance''),
              (Unless (Found ''work'') (Found ''power''), ''work''),
              (Found ''power'', ''power''),
              (Found (''ohm'' @ BS @ SQ @ ''s'' @ BS @ ''s+law''), ''ohms_law''),
              (Either (Found (''universal'' @ BS @ ''s+gravitation''))
                      (Found (''gravitational'' @ BS @ ''s+force'')),
               ''universal_gravitation'')]
             (lower q) of
        Inl e \<Rightarrow> Inl e
      | Inr (Some key) \<Rightarrow> Inr (Some key)
      | Inr None \<Rightarrow> first_group formula_patterns (lower q))"

definition physics_extract_calculation_expression :: "string \<Rightarrow> py_exn + string option" where
  "physics_extract_calculation_expression q =
     (case first_pattern_match physics_calculation_patterns (lower q) of
        Inl e \<Rightarrow> Inl e
      | Inr (Some expression) \<Rightarrow> Inr (Some expression)
      | Inr None \<Rightarrow>
          (case re_match standalone_pattern (strip q) of
             Inl e \<Rightarrow> Inl (RegexError e)
           | Inr (Some m) \<Rightarrow> Inr (Some (strip q))
           | Inr None \<Rightarrow> Inr None))"

definition physics_format_calculation_for_tool :: "string \<Rightarrow> re_error + string" where
  "physics_format_calculation_for_tool expression =
     (case sub_all
             [(True, ''calculate'' @ BS @ ''s+'', []),
              (True, ''compute'' @ BS @ ''s+'', []),
              (True, ''find'' @ BS @ ''s+'', []),
              (True, ''determine'' @ BS @ ''s+'', []),
              (True, ''what'' @ BS @ ''s+is'' @ BS @ ''s+the'' @ BS @ ''s+'', []),
              (True, ''plus'', ''+''),
              (True, ''minus'', ''-''),
              (True, ''times'', ''*''),
              (True, ''multiplied'' @ BS @ ''s+by'', ''*''),
              (True, ''divided'' @ BS @ ''s+by'', ''/''),
              (True, ''squared'', ''^2''),
              (True, ''cubed'', ''^3''),
              (False, ''[^0-9'' @ BS @ ''+'' @ BS @ ''-'' @ BS @ ''*'' @ BS @ ''/'' @ BS @ ''^''
                      @ BS @ ''('' @ BS @ '')'' @ BS @ ''.'' @ BS @ ''s]'', [])]
             expression of
        Inl e \<Rightarrow> Inl e
      | Inr s \<Rightarrow> Inr (strip s))"

text \<open>
  \<open>_generate_response\<close> asks the text-generation oracle: given the query and the
  results of the constant lookup, the formula lookup and the calculation, if any, it
  returns the text or the text of the exception raised.
\<close>

type_synonym physics_oracle =
  "string \<Rightarrow> dict option \<Rightarrow> dict option \<Rightarrow> dict option \<Rightarrow> string + string"

record physics_results =
  constant_result :: "dict option"
  formula_result :: "dict option"
  calculation_result :: "dict option"
  tools_used :: "(string \<times> dict) list"

definition physics_error_event :: "string \<Rightarrow> string \<Rightarrow> string \<Rightarrow> gen" where
  \<comment> \<open>the \<^verbatim>\<open>except Exception\<close> of \<open>run\<close>\<close>
  "physics_error_event e rid tid =
     Yield (Some (ErrorEvent ''PHYSICS_AGENT_ERROR'' (''Error in Physics Agent: '' @ e) None
                    rid tid))
       (\<lambda>_. Done)"

definition await_tool ::
  "string \<Rightarrow> dict \<Rightarrow> string \<Rightarrow> string \<Rightarrow> (dict option \<Rightarrow> gen) \<Rightarrow> gen" where
  \<comment> \<open>\<^verbatim>\<open>yield ToolInvocationEvent(...)\<close>, then \<^verbatim>\<open>tool_result = yield\<close>; the rest of the
      run gets the result of the tool when \<open>tool_result\<close> is a tool result without error,
      and nothing otherwise\<close>
  "await_tool tool_name inputs rid tid rest =
     Yield (Some (ToolInvocationEvent tool_name inputs rid tid))
       (\<lambda>_. Yield None
          (\<lambda>tool_result.
             case tool_result of
               None \<Rightarrow> physics_error_event none_event_message rid tid
             | Some (ToolResultEvent name result err r t) \<Rightarrow>
                 (case err of
                    None \<Rightarrow> rest (Some result)
                  | Some e \<Rightarrow> if e = [] then rest (Some result) else rest None)
             | Some other \<Rightarrow> rest None))"

fun join_names :: "string list \<Rightarrow> string" where
  \<comment> \<open>\<^verbatim>\<open>", ".join(names)\<close>\<close>
  "join_names [] = []"
| "join_names [n] = n"
| "join_names (n # ns) = n @ '', '' @ join_names ns"

definition pyval_of_result :: "dict option \<Rightarrow> pyval" where
  "pyval_of_result d = (case d of None \<Rightarrow> PNone | Some kvs \<Rightarrow> PDict kvs)"

definition physics_respond ::
  "physics_oracle \<Rightarrow> string \<Rightarrow> string \<Rightarrow> string \<Rightarrow> physics_results \<Rightarrow> gen" where
  \<comment> \<open>generate the response, name the tools that were used, yield the final event\<close>
  "physics_respond orc q rid tid st =
     (case orc q (constant_result st) (formula_result st) (calculation_result st) of
        Inl e \<Rightarrow> physics_error_event e rid tid
      | Inr response \<Rightarrow>
          (case tools_used st of
             [] \<Rightarrow>
               Yield (Some (FinalResponseEvent response ''PhysicsAgent'' None None rid tid))
                 (\<lambda>_. Done)
           | [(name, result)] \<Rightarrow>
               Yield (Some (FinalResponseEvent response ''PhysicsAgent'' (Some name) (Some result)
                              rid tid))
                 (\<lambda>_. Done)
           | used \<Rightarrow>
               Yield (Some (FinalResponseEvent response ''PhysicsAgent''
                              (Some (join_names (map fst used)))
                              (Some [(''constant_result'', pyval_of_result (constant_result st)),
                                     (''formula_result'', pyval_of_result (formula_result st)),
                                     (''calculation_result'',
                                      pyval_of_result (calculation_result st))])
                              rid tid))
                 (\<lambda>_. Done)))"

definition physics_calculation_stage ::
  "physics_oracle \<Rightarrow> string \<Rightarrow> string \<Rightarrow> string \<Rightarrow> physics_results \<Rightarrow> gen" where
  "physics_calculation_stage orc q rid tid st =
     (case physics_extract_calculation_expression q of
        Inl e \<Rightarrow> physics_error_event (exn_text e) rid tid
      | Inr None \<Rightarrow> physics_respond orc q rid tid st
      | Inr (Some expression) \<Rightarrow>
          (case physics_format_calculation_for_tool expression of
             Inl e \<Rightarrow> physics_error_event (re_error_text e) rid tid
           | Inr formatted_expression \<Rightarrow>
               await_tool ''CalculatorTool'' [(''expression'', PStr formatted_expression)]
                 rid tid
                 (\<lambda>res. physics_respond orc q rid tid
                    (case res of
                       None \<Rightarrow> st
                     | Some result \<Rightarrow>
                         st\<lparr>calculation_result := Some result,
                            tools_used := tools_used st @ [(''CalculatorTool'', result)]\<rparr>))))"

definition physics_formula_stage ::
  "physics_oracle \<Rightarrow> string \<Rightarrow> string \<Rightarrow> string \<Rightarrow> physics_results \<Rightarrow> gen" where
  "physics_formula_stage orc q rid tid st =
     (case extract_formula_key q of
        Inl e \<Rightarrow> physics_error_event (exn_text e) rid tid
      | Inr None \<Rightarrow> physics_calculation_stage orc q rid tid st
      | Inr (Some formula_key) \<Rightarrow>
          await_tool ''LookupTool'' [(''key'', PStr formula_key), (''type'', PStr ''formula'')]
            rid tid
            (\<lambda>res. physics_calculation_stage orc q rid tid
               (case res of
                  None \<Rightarrow> st
                | Some result \<Rightarrow>
                    st\<lparr>formula_result := Some result,
                       tools_used := tools_used st @ [(''LookupTool'', result)]\<rparr>)))"

definition PhysicsAgent_run :: "physics_oracle \<Rightarrow> InvocationContext \<Rightarrow> gen" where
  "PhysicsAgent_run orc ctx =
     (let q = query ctx; rid = request_id ctx; tid = trace_id ctx;
          st = \<lparr>constant_result = None, formula_result = None, calculation_result = None,
                tools_used = []\<rparr>
      in case extract_constant_key q of
           Inl e \<Rightarrow> physics_error_event (exn_text e) rid tid
         | Inr None \<Rightarrow> physics_formula_stage orc q rid tid st
         | Inr (Some constant_key) \<Rightarrow>
             await_tool ''LookupTool''
               [(''key'', PStr constant_key), (''type'', PStr ''constant'')] rid tid
               (\<lambda>res. physics_formula_stage orc q rid tid
                  (case res of
                     None \<Rightarrow> st
                   | Some result \<Rightarrow>
                       st\<lparr>constant_result := Some result,
                          tools_used := tools_used st @ [(''LookupTool'', result)]\<rparr>)))"

section \<open>The Runner of a request (src/api/main.py, get\_runner)\<close>

definition shipped_agents ::
  "intent_oracle \<Rightarrow> text_oracle \<Rightarrow> physics_oracle \<Rightarrow> string \<rightharpoonup> (InvocationContext \<Rightarrow> gen)" where
  \<comment> \<open>the registry of agents \<open>get_runner\<close> builds; the oracles stand for the text
      generation each agent calls\<close>
  "shipped_agents orc morc porc =
     [''TutorAgent'' \<mapsto> TutorAgent_gen orc,
      ''MathAgent'' \<mapsto> MathAgent_run morc,
      ''PhysicsAgent'' \<mapsto> PhysicsAgent_run porc]"

definition canned_oracle :: text_oracle where
  \<comment> \<open>a text oracle that always answers\<close>
  "canned_oracle q calc = Inr ''Here is the explanation.''"

definition canned_physics_oracle :: physics_oracle where
  "canned_physics_oracle q c f calc = Inr ''Here is the physics.''"

definition full_runner :: Runner where
  \<comment> \<open>a Runner with the three agents and the calculator tool, with the identifiers of
      \<open>context_of\<close>\<close>
  "full_runner =
     \<lparr>agents = shipped_agents failing_oracle canned_oracle canned_physics_oracle,
      tools = [''CalculatorTool'' \<mapsto>
                 (\<lambda>inputs. case CalculatorTool_execute exact_evaluator inputs of
                              Inl e \<Rightarrow> Inl (exn_text e) | Inr d \<Rightarrow> Inr d)],
      has_session_service = True, runner_request_id = ''req-1'',
      runner_trace_id = ''trace-1''\<rparr>"

section \<open>Rounding to binary64: bounds and monotonicity\<close>

lemma floor_log2_bounds:
  assumes "0 < x"
  shows "2 powi floor_log2 x \<le> x" and "x < 2 powi (floor_log2 x + 1)"
proof -
  have "2 powi floor_log2 x \<le> x \<and> x < 2 powi (floor_log2 x + 1)"
  proof (cases "1 \<le> x")
    case True
    define n where "n = \<lfloor>x\<rfloor>"
    have n1: "1 \<le> n" using True by (simp add: n_def le_floor_iff)
    then have n0: "0 < n" by simp
    have b1: "1 \<le> bitlen n" using n0 by (simp add: bitlen_alt_def)
    from bitlen_bounds[OF n0]
    have lo: "2 ^ nat (bitlen n - 1) \<le> n" and hi: "n < 2 ^ nat (bitlen n)" by auto
    have fl: "floor_log2 x = bitlen n - 1" using True by (simp add: floor_log2_def n_def)
    have "(2::rat) powi (bitlen n - 1) = 2 ^ nat (bitlen n - 1)"
      using b1 by (simp add: power_int_nonneg_exp)
    also have "\<dots> = of_int (2 ^ nat (bitlen n - 1))" by simp
    also have "\<dots> \<le> of_int n" using lo by (simp only: of_int_le_iff)
    also have "\<dots> \<le> x" by (simp add: n_def)
    finally have A: "2 powi floor_log2 x \<le> x" by (simp add: fl)
    have "n + 1 \<le> 2 ^ nat (bitlen n)" using hi by simp
    then have "(of_int (n + 1) :: rat) \<le> of_int (2 ^ nat (bitlen n))"
      by (simp only: of_int_le_iff)
    moreover have "x < of_int (n + 1)" using floor_correct[of x] by (simp add: n_def)
    ultimately have "x < of_int (2 ^ nat (bitlen n))" by linarith
    also have "\<dots> = (2::rat) powi (bitlen n)" using b1 by (simp add: power_int_nonneg_exp)
    finally have B: "x < 2 powi (floor_log2 x + 1)" by (simp add: fl)
    from A B show ?thesis by simp
  next
    case False
    then have x1: "x < 1" by simp
    define t where "t = 1 / x"
    have t1: "1 < t" using assms x1 by (simp add: t_def)
    define m where "m = \<lceil>t\<rceil> - 1"
    have m1: "1 \<le> m" using t1 by (simp add: m_def less_ceiling_iff)
    then have m0: "0 < m" by simp
    have b1: "1 \<le> bitlen m" using m0 by (simp add: bitlen_alt_def)
    from bitlen_bounds[OF m0]
    have lo: "2 ^ nat (bitlen m - 1) \<le> m" and hi: "m < 2 ^ nat (bitlen m)" by auto
    have fl: "floor_log2 x = - bitlen m" using False by (simp add: floor_log2_def m_def t_def)
    have tm: "of_int m < t" by (simp add: m_def) linarith
    have tm1: "t \<le> of_int (m + 1)" by (simp add: m_def)
    have "m + 1 \<le> 2 ^ nat (bitlen m)" using hi by simp
    then have "(of_int (m + 1) :: rat) \<le> of_int (2 ^ nat (bitlen m))"
      by (simp only: of_int_le_iff)
    with tm1 have "t \<le> 2 ^ nat (bitlen m)" by simp
    then have "1 / x \<le> 2 powi (bitlen m)" using b1 by (simp add: t_def power_int_nonneg_exp)
    then have "1 \<le> 2 powi (bitlen m) * x" using assms by (simp add: field_simps)
    then have A: "2 powi (- bitlen m) \<le> x"
      by (simp add: power_int_minus field_simps)
    have "(of_int (2 ^ nat (bitlen m - 1)) :: rat) \<le> of_int m" using lo by (simp only: of_int_le_iff)
    then have "(2::rat) ^ nat (bitlen m - 1) \<le> of_int m" by simp
    with tm have "2 ^ nat (bitlen m - 1) < t" by linarith
    then have "2 powi (bitlen m - 1) < 1 / x" using b1 by (simp add: t_def power_int_nonneg_exp)
    then have px: "2 powi (bitlen m - 1) * x < 1" using assms by (simp add: field_simps)
    define p where "p = (2::rat) powi (bitlen m - 1)"
    have p0: "0 < p" by (simp add: p_def)
    have qp: "2 powi (- bitlen m + 1) * p = 1"
      using power_int_add[of "2::rat" "- bitlen m + 1" "bitlen m - 1"] by (simp add: p_def)
    have "x * p < 2 powi (- bitlen m + 1) * p"
      using px qp by (simp add: p_def mult.commute)
    then have B: "x < 2 powi (- bitlen m + 1)"
      using p0 by (simp only: mult_less_cancel_right_pos)
    from A B show ?thesis by (simp add: fl)
  qed
  then show "2 powi floor_log2 x \<le> x" and "x < 2 powi (floor_log2 x + 1)" by simp_all
qed

lemma floor_log2_mono:
  assumes "0 < y" "y \<le> x"
  shows "floor_log2 y \<le> floor_log2 x"
proof -
  have "2 powi floor_log2 y \<le> y" using floor_log2_bounds(1)[OF assms(1)] .
  also have "\<dots> \<le> x" by fact
  also have "\<dots> < 2 powi (floor_log2 x + 1)" using floor_log2_bounds(2)[of x] assms by simp
  finally have lt: "(2::rat) powi floor_log2 y < 2 powi (floor_log2 x + 1)" .
  have "floor_log2 y < floor_log2 x + 1"
  proof (rule ccontr)
    assume "\<not> floor_log2 y < floor_log2 x + 1"
    then have "floor_log2 x + 1 \<le> floor_log2 y" by simp
    then have "(2::rat) powi (floor_log2 x + 1) \<le> 2 powi floor_log2 y"
      by (intro power_int_increasing) simp_all
    with lt show False by linarith
  qed
  then show ?thesis by simp
qed

lemma round_half_even_ge_floor: "\<lfloor>q\<rfloor> \<le> round_half_even q"
  by (simp add: round_half_even_def Let_def)

lemma double_of_pos:
  assumes "0 < x"
  shows "double_of x = of_int (round_half_even (x / 2 powi (max (floor_log2 x) (- 1022) - 52)))
           * 2 powi (max (floor_log2 x) (- 1022) - 52)"
  using assms by (simp add: double_of_def Let_def)

lemma double_of_nonneg: "0 \<le> x \<Longrightarrow> 0 \<le> double_of x"
proof (cases "x = 0")
  case True then show ?thesis by (simp add: double_of_def)
next
  case False
  assume "0 \<le> x"
  with False have x: "0 < x" by simp
  let ?u = "(2::rat) powi (max (floor_log2 x) (- 1022) - 52)"
  have u: "0 < ?u" by simp
  have "0 \<le> x / ?u" using x u by simp
  then have "0 \<le> \<lfloor>x / ?u\<rfloor>" by simp
  then have "0 \<le> round_half_even (x / ?u)" using round_half_even_ge_floor[of "x / ?u"] by linarith
  then show ?thesis using u by (simp add: double_of_pos[OF x])
qed

lemma double_of_ge_representable:
  assumes y: "0 < y" and rep: "double_of y = y" and le: "y \<le> x"
  shows "y \<le> double_of x"
proof -
  have x: "0 < x" using y le by simp
  define ey where "ey = max (floor_log2 y) (- 1022)"
  define ex where "ex = max (floor_log2 x) (- 1022)"
  define ux where "ux = (2::rat) powi (ex - 52)"
  define uy where "uy = (2::rat) powi (ey - 52)"
  have ux: "0 < ux" and uy: "0 < uy" by (simp_all add: ux_def uy_def)
  have dx: "double_of x = of_int (round_half_even (x / ux)) * ux"
    by (simp add: double_of_pos[OF x] ux_def ex_def)
  have dy: "y = of_int (round_half_even (y / uy)) * uy"
    using rep by (simp add: double_of_pos[OF y] uy_def ey_def)
  have exy: "ey \<le> ex" using floor_log2_mono[OF y le] by (simp add: ex_def ey_def)
  have fl: "of_int \<lfloor>x / ux\<rfloor> * ux \<le> double_of x"
    using round_half_even_ge_floor[of "x / ux"] ux by (simp add: dx)
  show ?thesis
  proof (cases "ex = ey")
    case True
    then have uu: "ux = uy" by (simp add: ux_def uy_def)
    define my where "my = round_half_even (y / uy)"
    have "of_int my = y / uy" using dy uy by (simp add: my_def field_simps)
    also have "\<dots> \<le> x / ux" using le ux by (simp add: uu divide_right_mono)
    finally have "my \<le> \<lfloor>x / ux\<rfloor>" by (simp add: le_floor_iff)
    then have "(of_int my :: rat) \<le> of_int \<lfloor>x / ux\<rfloor>" by (simp only: of_int_le_iff)
    then have "of_int my * ux \<le> of_int \<lfloor>x / ux\<rfloor> * ux" using ux by simp
    moreover have "y = of_int my * ux" using dy by (simp add: my_def uu)
    ultimately show ?thesis using fl by linarith
  next
    case False
    with exy have lt: "ey < ex" by simp
    then have exfl: "ex = floor_log2 x" by (auto simp: ex_def ey_def max_def split: if_splits)
    have "floor_log2 y + 1 \<le> ex" using lt by (simp add: ey_def)
    then have "(2::rat) powi (floor_log2 y + 1) \<le> 2 powi ex"
      by (intro power_int_increasing) simp_all
    with floor_log2_bounds(2)[OF y] have ylt: "y < 2 powi ex" by linarith
    have "2 powi ex \<le> x" using floor_log2_bounds(1)[OF x] by (simp add: exfl)
    then have "2 powi ex / ux \<le> x / ux" using ux by (simp add: divide_right_mono)
    moreover have "(2::rat) powi ex / ux = 2 ^ 52"
      using power_int_diff[of "2::rat" ex "ex - 52"] by (simp add: ux_def)
    ultimately have "(of_int (2 ^ 52) :: rat) \<le> x / ux" by simp
    then have "2 ^ 52 \<le> \<lfloor>x / ux\<rfloor>" by (simp only: le_floor_iff)
    then have "(of_int (2 ^ 52) :: rat) \<le> of_int \<lfloor>x / ux\<rfloor>" by (simp only: of_int_le_iff)
    then have "of_int (2 ^ 52) * ux \<le> of_int \<lfloor>x / ux\<rfloor> * ux" using ux by simp
    moreover have "of_int (2 ^ 52) * ux = 2 powi ex"
      using power_int_diff[of "2::rat" ex "ex - 52"] ux by (simp add: ux_def field_simps)
    ultimately show ?thesis using fl ylt by linarith
  qed
qed

section \<open>Facts about blank queries and the stage-1 confidence\<close>

lemma all_dropWhile: "list_all P (dropWhile P xs) \<longleftrightarrow> list_all P xs"
  by (induction xs) auto

lemma strip_Nil_iff: "strip s = [] \<longleftrightarrow> list_all is_space s"
proof -
  have "strip s = [] \<longleftrightarrow> list_all is_space (dropWhile is_space s)"
    by (simp add: strip_def dropWhile_eq_Nil_conv list_all_iff)
  then show ?thesis by (simp only: all_dropWhile)
qed

lemma double_07: "double_of (7 / 10) = 6305039478318694 / 2 ^ 53" by code_simp
lemma double_01: "double_of (1 / 10) = 7205759403792794 / 2 ^ 56" by code_simp
lemma double_095: "double_of (95 / 100) = 8556839292003942 / 2 ^ 53" by code_simp
lemma double_09: "double_of (9 / 10) = 8106479329266893 / 2 ^ 53" by code_simp
lemma double_05: "double_of (5 / 10) = 1 / 2" by code_simp
lemma double_1: "double_of 1 = 1" by code_simp

lemma stage1_confidence_bounds:
  assumes "0 < n"
  shows "fadd (double_of (7 / 10)) (double_of (1 / 10)) \<le> stage1_confidence n"
    and "stage1_confidence n \<le> double_of (95 / 100)"
proof -
  define d01 where "d01 = double_of (1 / 10)"
  define d07 where "d07 = double_of (7 / 10)"
  define c1 where "c1 = fadd (double_of (7 / 10)) (double_of (1 / 10))"
  define dn where "dn = double_of (of_nat n)"
  have p01: "0 < d01" unfolding d01_def by code_simp
  have r01: "double_of d01 = d01" unfolding d01_def by code_simp
  have pc1: "0 < c1" unfolding c1_def by code_simp
  have rc1: "double_of c1 = c1" unfolding c1_def by code_simp
  have s: "c1 \<le> d07 + d01" unfolding c1_def d07_def d01_def by code_simp
  have c95: "c1 \<le> double_of (95 / 100)" unfolding c1_def by code_simp
  have n1: "(1::rat) \<le> of_nat n" using assms by simp
  have "1 \<le> double_of (of_nat n)"
    by (rule double_of_ge_representable[OF _ double_1 n1]) simp
  then have dn: "1 \<le> dn" by (simp add: dn_def)
  have "d01 * 1 \<le> d01 * dn" using dn p01 by (intro mult_left_mono) simp_all
  then have "d01 \<le> d01 * dn" by simp
  then have m: "d01 \<le> double_of (d01 * dn)"
    by (rule double_of_ge_representable[OF p01 r01])
  have "c1 \<le> d07 + double_of (d01 * dn)" using s m by linarith
  then have a: "c1 \<le> double_of (d07 + double_of (d01 * dn))"
    by (rule double_of_ge_representable[OF pc1 rc1])
  have eq: "stage1_confidence n = min (double_of (d07 + double_of (d01 * dn))) (double_of (95 / 100))"
    by (simp only: stage1_confidence_def fadd_def fmul_def d07_def d01_def dn_def)
  show "fadd (double_of (7 / 10)) (double_of (1 / 10)) \<le> stage1_confidence n"
    using a c95 unfolding eq c1_def by simp
  show "stage1_confidence n \<le> double_of (95 / 100)"
    unfolding eq by simp
qed

lemma stage1_floor_value: "fadd (double_of (7 / 10)) (double_of (1 / 10)) = 7205759403792793 / 2 ^ 53"
  by code_simp

lemma thresholds_le: "DEFAULT_CONFIDENCE_THRESHOLD \<le> fadd (double_of (7 / 10)) (double_of (1 / 10))"
  "double_of (95 / 100) \<le> 1" "0 \<le> DEFAULT_CONFIDENCE_THRESHOLD"
  "LOW_CONFIDENCE_THRESHOLD < DEFAULT_CONFIDENCE_THRESHOLD"
  "DEFAULT_CONFIDENCE_THRESHOLD < HIGH_CONFIDENCE_THRESHOLD"
  "0 < LOW_CONFIDENCE_THRESHOLD" "HIGH_CONFIDENCE_THRESHOLD < 1"
  by code_simp+

lemma stage1_confidence_ge3:
  assumes "3 \<le> n"
  shows "stage1_confidence n = double_of (95 / 100)"
proof -
  define d01 where "d01 = double_of (1 / 10)"
  define d07 where "d07 = double_of (7 / 10)"
  define d95 where "d95 = double_of (95 / 100)"
  define dn where "dn = double_of (of_nat n)"
  have p01: "0 < d01" unfolding d01_def by code_simp
  have q: "1 / 4 \<le> d01 * 3" unfolding d01_def by code_simp
  have r4: "double_of (1 / 4) = 1 / 4" by code_simp
  have r3: "double_of 3 = 3" by code_simp
  have p95: "0 < d95" unfolding d95_def by code_simp
  have r95: "double_of d95 = d95" unfolding d95_def by code_simp
  have s: "d95 \<le> d07 + 1 / 4" unfolding d95_def d07_def by code_simp
  have n3: "(3::rat) \<le> of_nat n" using assms by simp
  have "3 \<le> double_of (of_nat n)"
    by (rule double_of_ge_representable[OF _ r3 n3]) simp
  then have dn: "3 \<le> dn" by (simp add: dn_def)
  have "d01 * 3 \<le> d01 * dn" using dn p01 by (intro mult_left_mono) simp_all
  with q have "1 / 4 \<le> d01 * dn" by linarith
  have p4: "(0::rat) < 1 / 4" by simp
  from \<open>1 / 4 \<le> d01 * dn\<close> have m: "1 / 4 \<le> double_of (d01 * dn)"
    by (rule double_of_ge_representable[OF p4 r4])
  have "d95 \<le> d07 + double_of (d01 * dn)" using s m by linarith
  then have a: "d95 \<le> double_of (d07 + double_of (d01 * dn))"
    by (rule double_of_ge_representable[OF p95 r95])
  have eq: "stage1_confidence n = min (double_of (d07 + double_of (d01 * dn))) d95"
    by (simp only: stage1_confidence_def fadd_def fmul_def d07_def d01_def dn_def d95_def)
  show ?thesis using a unfolding eq d95_def by simp
qed

lemma stage1_confidence_2: "stage1_confidence 2 = 8106479329266892 / 2 ^ 53"
  by code_simp

section \<open>Stage-1 lexical routing\<close>

lemma counts_algebra: "math_count ''Explain algebra'' = 1" "physics_count ''Explain algebra'' = 0"
  by code_simp+

lemma stage1_confidence_1: "stage1_confidence 1 = 7205759403792793 / 2 ^ 53"
  by code_simp
lemma stage1_loser_1: "fsub 1 (stage1_confidence 1) = 1801439850948199 / 2 ^ 53"
  by code_simp

text \<open>
  Claim C2. Whenever one agent's keyword count is positive and strictly more than double
  the other's, stage 1 chooses that agent with confidence
  \<open>min(0.7 + 0.1 \<times> count, 0.95)\<close> (in floats), gives the other agent one minus
  that confidence, and sends nothing to the oracle.
\<close>

theorem stage1_lexical_routing:
  "(0 < math_count q \<and> 2 * physics_count q < math_count q \<longrightarrow>
      TutorAgent_analyze_query_intent orc q =
        (Inr (''MathAgent'', Fin (stage1_confidence (math_count q)),
              PDict [(''MathAgent'', PFloat (Fin (stage1_confidence (math_count q)))),
               (''PhysicsAgent'', PFloat (Fin (fsub 1 (stage1_confidence (math_count q)))))]),
         []))
   \<and> (0 < physics_count q \<and> 2 * math_count q < physics_count q \<longrightarrow>
      TutorAgent_analyze_query_intent orc q =
        (Inr (''PhysicsAgent'', Fin (stage1_confidence (physics_count q)),
              PDict [(''PhysicsAgent'', PFloat (Fin (stage1_confidence (physics_count q)))),
               (''MathAgent'', PFloat (Fin (fsub 1 (stage1_confidence (physics_count q)))))]),
         []))"
  by (simp add: TutorAgent_analyze_query_intent_def stage1_confidence_def Let_def)

theorem stage1_lexical_routing_witness:
  "0 < math_count ''Explain algebra''
   \<and> 2 * physics_count ''Explain algebra'' < math_count ''Explain algebra''
   \<and> TutorAgent_analyze_query_intent failing_oracle ''Explain algebra'' =
        (Inr (''MathAgent'', Fin (7205759403792793 / 2 ^ 53),
              PDict [(''MathAgent'', PFloat (Fin (7205759403792793 / 2 ^ 53))),
               (''PhysicsAgent'', PFloat (Fin (1801439850948199 / 2 ^ 53)))]),
         [])"
proof -
  have h: "0 < math_count ''Explain algebra''
           \<and> 2 * physics_count ''Explain algebra'' < math_count ''Explain algebra''"
    by (simp only: counts_algebra) simp
  have w: "fsub 1 (stage1_confidence (math_count ''Explain algebra'')) = 1801439850948199 / 2 ^ 53"
    by (simp only: counts_algebra stage1_loser_1)
  have v: "stage1_confidence (math_count ''Explain algebra'') = 7205759403792793 / 2 ^ 53"
    by (simp only: counts_algebra stage1_confidence_1)
  from stage1_lexical_routing [of "''Explain algebra''" failing_oracle] h
  have "TutorAgent_analyze_query_intent failing_oracle ''Explain algebra'' =
        (Inr (''MathAgent'', Fin (stage1_confidence (math_count ''Explain algebra'')),
              PDict [(''MathAgent'', PFloat (Fin (stage1_confidence (math_count ''Explain algebra'')))),
               (''PhysicsAgent'',
                PFloat (Fin (fsub 1 (stage1_confidence (math_count ''Explain algebra'')))))]),
         [])"
    by blast
  then show ?thesis using h unfolding w unfolding v by blast
qed

section \<open>Blank queries\<close>

lemma blank_is_space: "list_all is_space [CHR 0x20, CHR 0x09, CHR 0x0A]"
  by code_simp

text \<open>
  Claim C8. For a query that is empty or made of whitespace only, the Tutor agent yields
  exactly one event, the error \<open>EMPTY_QUERY\<close>, and nothing is sent to the oracle: no
  routing takes place.
\<close>

theorem empty_query_short_circuits:
  assumes "list_all is_space (query ctx)"
  shows "TutorAgent_run orc ctx =
           ([ErrorEvent ''EMPTY_QUERY'' ''Query cannot be empty'' None
               (request_id ctx) (trace_id ctx)], [])"
  using assms by (simp add: TutorAgent_run_def strip_Nil_iff)

theorem empty_query_short_circuits_witness:
  "list_all is_space (query (context_of [CHR 0x20, CHR 0x09, CHR 0x0A]))
   \<and> TutorAgent_run failing_oracle (context_of [CHR 0x20, CHR 0x09, CHR 0x0A]) =
       ([ErrorEvent ''EMPTY_QUERY'' ''Query cannot be empty'' None ''req-1'' ''trace-1''], [])
   \<and> TutorAgent_run failing_oracle (context_of []) =
       ([ErrorEvent ''EMPTY_QUERY'' ''Query cannot be empty'' None ''req-1'' ''trace-1''], [])"
  using empty_query_short_circuits [of "context_of [CHR 0x20, CHR 0x09, CHR 0x0A]" failing_oracle]
        empty_query_short_circuits [of "context_of []" failing_oracle] blank_is_space
  by (simp add: context_of_def)

section \<open>The four confidence bands\<close>












section \<open>The lexical path always delegates\<close>

lemma str_in_set: "str_in xs ys \<Longrightarrow> set xs \<subseteq> set ys"
proof (induction ys)
  case Nil
  then show ?case by simp
next
  case (Cons y ys)
  from Cons.prems have "prefix xs (y # ys) \<or> str_in xs ys" by simp
  then show ?case
  proof
    assume "prefix xs (y # ys)"
    then show ?thesis by (rule set_mono_prefix)
  next
    assume "str_in xs ys"
    with Cons.IH show ?thesis by auto
  qed
qed

lemma lower_char_space: "is_space c \<Longrightarrow> lower_char c = c"
  by (auto simp: is_space_def lower_char_def Let_def)

lemma keywords_not_blank:
  "list_all (\<lambda>k. \<not> list_all is_space k) math_keywords"
  "list_all (\<lambda>k. \<not> list_all is_space k) physics_keywords"
  by code_simp+

lemma keyword_hit_not_blank:
  assumes "k \<in> set ks" "list_all (\<lambda>k. \<not> list_all is_space k) ks" "str_in k (lower q)"
  shows "strip q \<noteq> []"
proof -
  from assms(1,2) obtain c where c: "c \<in> set k" "\<not> is_space c"
    by (auto simp: list_all_iff)
  with str_in_set[OF assms(3)] have "c \<in> set (lower q)" by auto
  then obtain x where x: "x \<in> set q" "c = lower_char x" by (auto simp: lower_def)
  with c lower_char_space[of x] have "\<not> is_space x" by auto
  with x show ?thesis by (auto simp: strip_Nil_iff list_all_iff)
qed

lemma count_pos_not_blank:
  "0 < math_count q \<Longrightarrow> strip q \<noteq> []"
  "0 < physics_count q \<Longrightarrow> strip q \<noteq> []"
proof -
  assume "0 < math_count q"
  then obtain k where "k \<in> set math_keywords" "str_in k (lower q)"
    by (auto simp: math_count_def filter_empty_conv)
  then show "strip q \<noteq> []" using keyword_hit_not_blank keywords_not_blank(1) by blast
next
  assume "0 < physics_count q"
  then obtain k where "k \<in> set physics_keywords" "str_in k (lower q)"
    by (auto simp: physics_count_def filter_empty_conv)
  then show "strip q \<noteq> []" using keyword_hit_not_blank keywords_not_blank(2) by blast
qed

lemma delegation_of_stage1:
  assumes "0 < n"
  shows "\<exists>dctx. apply_confidence_thresholds best (Fin (stage1_confidence n)) scores rid tid =
           Inr (DelegationEvent best (Fin (stage1_confidence n)) dctx rid tid)"
proof -
  have lo: "DEFAULT_CONFIDENCE_THRESHOLD \<le> stage1_confidence n"
    using stage1_confidence_bounds(1)[OF assms] thresholds_le(1) by linarith
  have hi: "stage1_confidence n \<le> 1"
    using stage1_confidence_bounds(2)[OF assms] thresholds_le(2) by linarith
  have z: "0 \<le> stage1_confidence n" using lo thresholds_le(3) by linarith
  show ?thesis using lo hi z
    by (auto simp: apply_confidence_thresholds_def mk_DelegationEvent_def)
qed

lemma math_lexical_run:
  assumes m: "0 < math_count (query ctx) \<and> 2 * physics_count (query ctx) < math_count (query ctx)"
  shows "\<exists>scores dctx.
           TutorAgent_analyze_query_intent orc (query ctx) =
             (Inr (''MathAgent'', Fin (stage1_confidence (math_count (query ctx))), scores), [])
           \<and> TutorAgent_run orc ctx =
               ([DelegationEvent ''MathAgent'' (Fin (stage1_confidence (math_count (query ctx))))
                   dctx (request_id ctx) (trace_id ctx)], [])"
proof -
  let ?c = "stage1_confidence (math_count (query ctx))"
  let ?s = "PDict [(''MathAgent'', PFloat (Fin ?c)), (''PhysicsAgent'', PFloat (Fin (fsub 1 ?c)))]"
  have a: "TutorAgent_analyze_query_intent orc (query ctx) = (Inr (''MathAgent'', Fin ?c, ?s), [])"
    using m by (simp add: TutorAgent_analyze_query_intent_def stage1_confidence_def Let_def)
  have nb: "strip (query ctx) \<noteq> []" "query ctx \<noteq> []"
    using count_pos_not_blank(1)[of "query ctx"] m by (auto simp: strip_def)
  have m1: "0 < math_count (query ctx)" using m by simp
  from delegation_of_stage1[OF m1, where best = "''MathAgent''" and scores = ?s
      and rid = "request_id ctx" and tid = "trace_id ctx"]
  obtain dctx where d: "apply_confidence_thresholds ''MathAgent'' (Fin ?c) ?s (request_id ctx) (trace_id ctx) =
           Inr (DelegationEvent ''MathAgent'' (Fin ?c) dctx (request_id ctx) (trace_id ctx))" by blast
  have "TutorAgent_run orc ctx =
     ([DelegationEvent ''MathAgent'' (Fin ?c) dctx (request_id ctx) (trace_id ctx)], [])"
    using nb a d by (simp add: TutorAgent_run_def)
  with a show ?thesis by blast
qed

lemma physics_lexical_run:
  assumes m: "0 < physics_count (query ctx) \<and> 2 * math_count (query ctx) < physics_count (query ctx)"
  shows "\<exists>scores dctx.
           TutorAgent_analyze_query_intent orc (query ctx) =
             (Inr (''PhysicsAgent'', Fin (stage1_confidence (physics_count (query ctx))), scores), [])
           \<and> TutorAgent_run orc ctx =
               ([DelegationEvent ''PhysicsAgent'' (Fin (stage1_confidence (physics_count (query ctx))))
                   dctx (request_id ctx) (trace_id ctx)], [])"
proof -
  let ?c = "stage1_confidence (physics_count (query ctx))"
  let ?s = "PDict [(''PhysicsAgent'', PFloat (Fin ?c)), (''MathAgent'', PFloat (Fin (fsub 1 ?c)))]"
  have a: "TutorAgent_analyze_query_intent orc (query ctx) = (Inr (''PhysicsAgent'', Fin ?c, ?s), [])"
    using m by (simp add: TutorAgent_analyze_query_intent_def stage1_confidence_def Let_def)
  have nb: "strip (query ctx) \<noteq> []" "query ctx \<noteq> []"
    using count_pos_not_blank(2)[of "query ctx"] m by (auto simp: strip_def)
  have m1: "0 < physics_count (query ctx)" using m by simp
  from delegation_of_stage1[OF m1, where best = "''PhysicsAgent''" and scores = ?s
      and rid = "request_id ctx" and tid = "trace_id ctx"]
  obtain dctx where d: "apply_confidence_thresholds ''PhysicsAgent'' (Fin ?c) ?s (request_id ctx) (trace_id ctx) =
           Inr (DelegationEvent ''PhysicsAgent'' (Fin ?c) dctx (request_id ctx) (trace_id ctx))" by blast
  have "TutorAgent_run orc ctx =
     ([DelegationEvent ''PhysicsAgent'' (Fin ?c) dctx (request_id ctx) (trace_id ctx)], [])"
    using nb a d by (simp add: TutorAgent_run_def)
  with a show ?thesis by blast
qed

text \<open>
  Claim C10, as amended. Whenever stage 1 decides the route, the winning confidence lies
  between the float sum \<open>0.7 + 0.1\<close> (which is 0.7999999999999999, one unit in the
  last place below 0.8) and 0.95, it meets the default threshold 0.7, and the Tutor agent
  yields exactly one event, a delegation to the winner: never a clarification or the
  decline response. Nothing is sent to the oracle.
\<close>

theorem lexical_path_always_delegates:
  assumes "(0 < math_count (query ctx) \<and> 2 * physics_count (query ctx) < math_count (query ctx))
           \<or> (0 < physics_count (query ctx) \<and> 2 * math_count (query ctx) < physics_count (query ctx))"
  shows "\<exists>best c scores dctx.
           TutorAgent_analyze_query_intent orc (query ctx) = (Inr (best, Fin c, scores), [])
           \<and> fadd (double_of (7 / 10)) (double_of (1 / 10)) \<le> c \<and> c \<le> double_of (95 / 100)
           \<and> DEFAULT_CONFIDENCE_THRESHOLD \<le> c
           \<and> TutorAgent_run orc ctx =
               ([DelegationEvent best (Fin c) dctx (request_id ctx) (trace_id ctx)], [])"
  using assms
proof
  assume m: "0 < math_count (query ctx) \<and> 2 * physics_count (query ctx) < math_count (query ctx)"
  let ?c = "stage1_confidence (math_count (query ctx))"
  have b: "fadd (double_of (7 / 10)) (double_of (1 / 10)) \<le> ?c" "?c \<le> double_of (95 / 100)"
    using stage1_confidence_bounds[of "math_count (query ctx)"] m by auto
  then have "DEFAULT_CONFIDENCE_THRESHOLD \<le> ?c" using thresholds_le(1) by linarith
  with math_lexical_run[OF m, of orc] b show ?thesis by blast
next
  assume m: "0 < physics_count (query ctx) \<and> 2 * math_count (query ctx) < physics_count (query ctx)"
  let ?c = "stage1_confidence (physics_count (query ctx))"
  have b: "fadd (double_of (7 / 10)) (double_of (1 / 10)) \<le> ?c" "?c \<le> double_of (95 / 100)"
    using stage1_confidence_bounds[of "physics_count (query ctx)"] m by auto
  then have "DEFAULT_CONFIDENCE_THRESHOLD \<le> ?c" using thresholds_le(1) by linarith
  with physics_lexical_run[OF m, of orc] b show ?thesis by blast
qed

lemma analysis_algebra:
  "TutorAgent_analyze_query_intent failing_oracle ''Explain algebra'' =
     (Inr (''MathAgent'', Fin (7205759403792793 / 2 ^ 53),
           PDict [(''MathAgent'', PFloat (Fin (7205759403792793 / 2 ^ 53))),
            (''PhysicsAgent'', PFloat (Fin (1801439850948199 / 2 ^ 53)))]),
      [])"
proof -
  have "TutorAgent_analyze_query_intent failing_oracle ''Explain algebra'' =
     (Inr (''MathAgent'', Fin (stage1_confidence 1),
           PDict [(''MathAgent'', PFloat (Fin (stage1_confidence 1))),
            (''PhysicsAgent'', PFloat (Fin (fsub 1 (stage1_confidence 1))))]),
      [])"
    by (simp add: TutorAgent_analyze_query_intent_def counts_algebra stage1_confidence_def Let_def)
  then show ?thesis unfolding stage1_loser_1 unfolding stage1_confidence_1 .
qed

lemma stage1_confidence_2_below_high: "stage1_confidence 2 < HIGH_CONFIDENCE_THRESHOLD"
  by code_simp

theorem lexical_path_always_delegates_witness:
  "0 < math_count (query (context_of ''Explain algebra''))
   \<and> 2 * physics_count (query (context_of ''Explain algebra''))
       < math_count (query (context_of ''Explain algebra''))
   \<and> (\<exists>best c dctx.
          fadd (double_of (7 / 10)) (double_of (1 / 10)) \<le> c \<and> c \<le> double_of (95 / 100)
          \<and> TutorAgent_run failing_oracle (context_of ''Explain algebra'') =
              ([DelegationEvent best (Fin c) dctx ''req-1'' ''trace-1''], []))"
proof -
  have q: "query (context_of ''Explain algebra'') = ''Explain algebra''"
    "request_id (context_of ''Explain algebra'') = ''req-1''"
    "trace_id (context_of ''Explain algebra'') = ''trace-1''"
    by (simp_all add: context_of_def)
  have h: "0 < math_count (query (context_of ''Explain algebra''))
     \<and> 2 * physics_count (query (context_of ''Explain algebra''))
         < math_count (query (context_of ''Explain algebra''))"
    unfolding q by (simp only: counts_algebra) simp
  from lexical_path_always_delegates [of "context_of ''Explain algebra''" failing_oracle] h
  have "\<exists>best c dctx.
          fadd (double_of (7 / 10)) (double_of (1 / 10)) \<le> c \<and> c \<le> double_of (95 / 100)
          \<and> TutorAgent_run failing_oracle (context_of ''Explain algebra'') =
              ([DelegationEvent best (Fin c) dctx ''req-1'' ''trace-1''], [])"
    unfolding q by blast
  with h show ?thesis by blast
qed

text \<open>
  The claim as first stated puts the winning confidence in \<open>[0.8, 0.95]\<close>. With one
  keyword hit the code computes \<open>0.7 + 0.1 * 1\<close> in floats, which is below 0.8.
\<close>

theorem lexical_confidence_below_08:
  "0 < math_count ''Explain algebra''
   \<and> 2 * physics_count ''Explain algebra'' < math_count ''Explain algebra''
   \<and> TutorAgent_analyze_query_intent failing_oracle ''Explain algebra'' =
       (Inr (''MathAgent'', Fin (7205759403792793 / 2 ^ 53),
             PDict [(''MathAgent'', PFloat (Fin (7205759403792793 / 2 ^ 53))),
              (''PhysicsAgent'', PFloat (Fin (1801439850948199 / 2 ^ 53)))]),
        [])
   \<and> (7205759403792793 / 2 ^ 53 :: rat) < 8 / 10"
proof -
  have "0 < math_count ''Explain algebra''
        \<and> 2 * physics_count ''Explain algebra'' < math_count ''Explain algebra''"
    by (simp only: counts_algebra) simp
  moreover have "(7205759403792793 / 2 ^ 53 :: rat) < 8 / 10" by simp
  ultimately show ?thesis using analysis_algebra by blast
qed

section \<open>The Runner stamps its own identifiers\<close>



















section \<open>Every event of a call carries the identifiers of its context\<close>






section \<open>Delegation to an unknown agent\<close>

lemma run_agent_unknown:
  "agents r name = None \<Longrightarrow>
   run_agent r depth name c =
     [ErrorEvent ''AGENT_NOT_FOUND'' (''Agent not found: '' @ name) None
        (runner_request_id r) (runner_trace_id r)]"
  by (cases depth) simp_all

text \<open>
  Claim C6. When the Tutor agent delegates to a name that is not in the registry,
  \<open>run_agent\<close> yields the error event \<open>AGENT_NOT_FOUND\<close> for it, \<open>process_query\<close>
  raises \<open>AGENT_NOT_FOUND: Agent not found: name\<close>, and the session store is unchanged.
\<close>

theorem unknown_delegate_is_reported:
  assumes "agents r ''TutorAgent'' = Some tutor"
    and "tutor (initial_context r ss q sid) =
           Yield (Some (DelegationEvent target conf dctx rid tid)) k"
    and "agents r target = None"
  shows "run_agent r depth target c =
           [ErrorEvent ''AGENT_NOT_FOUND'' (''Agent not found: '' @ target) None
              (runner_request_id r) (runner_trace_id r)]
         \<and> process_query r (Suc depth) ss q sid =
             (Raised (''AGENT_NOT_FOUND: Agent not found: '' @ target), ss)"
proof -
  let ?e = "ErrorEvent ''AGENT_NOT_FOUND'' (''Agent not found: '' @ target) None
                  (runner_request_id r) (runner_trace_id r)"
  have u: "\<And>c. run_agent r depth target c = [?e]"
    using assms(3) by (rule run_agent_unknown)
  have "run_agent r (Suc depth) ''TutorAgent'' (initial_context r ss q sid) =
          ?e # drive r (run_agent r depth) (initial_context r ss q sid) (k None)"
    using assms(1,2) by (simp add: u)
  then have "first_terminal (run_agent r (Suc depth) ''TutorAgent'' (initial_context r ss q sid))
               = Err (''AGENT_NOT_FOUND: Agent not found: '' @ target)"
    by simp
  then have "process_query r (Suc depth) ss q sid =
             (Raised (''AGENT_NOT_FOUND: Agent not found: '' @ target), ss)"
    by (simp add: process_query_def)
  with u show ?thesis by simp
qed

theorem unknown_delegate_is_reported_witness:
  "agents demo_runner ''TutorAgent'' = Some (TutorAgent_gen failing_oracle)
   \<and> agents demo_runner ''MathAgent'' = None
   \<and> process_query demo_runner 2 Map.empty ''Explain algebra'' (Some ''s1'') =
       (Raised ''AGENT_NOT_FOUND: Agent not found: MathAgent'', Map.empty)"
proof -
  let ?ctx = "initial_context demo_runner Map.empty ''Explain algebra'' (Some ''s1'')"
  have h1: "agents demo_runner ''TutorAgent'' = Some (TutorAgent_gen failing_oracle)"
    and h3: "agents demo_runner ''MathAgent'' = None"
    by (simp_all add: demo_runner_def)
  have q: "query ?ctx = ''Explain algebra''" by (simp add: initial_context_def)
  have "0 < math_count (query ?ctx) \<and> 2 * physics_count (query ?ctx) < math_count (query ?ctx)"
    unfolding q by (simp only: counts_algebra) simp
  from math_lexical_run [OF this, of failing_oracle]
  obtain dctx where "TutorAgent_run failing_oracle ?ctx =
      ([DelegationEvent ''MathAgent'' (Fin (stage1_confidence (math_count (query ?ctx))))
          dctx (request_id ?ctx) (trace_id ?ctx)], [])"
    by blast
  then have h2: "TutorAgent_gen failing_oracle ?ctx =
      Yield (Some (DelegationEvent ''MathAgent'' (Fin (stage1_confidence (math_count (query ?ctx))))
          dctx (request_id ?ctx) (trace_id ?ctx))) (\<lambda>_. Done)"
    by (simp add: TutorAgent_gen_def)
  from unknown_delegate_is_reported [OF h1 h2 h3, where depth = 1]
  have "process_query demo_runner 2 Map.empty ''Explain algebra'' (Some ''s1'') =
       (Raised ''AGENT_NOT_FOUND: Agent not found: MathAgent'', Map.empty)"
    by (simp add: numeral_2_eq_2)
  with h1 h3 show ?thesis by blast
qed

section \<open>Matching in the lookup tool\<close>

lemma fdiv_nonneg: "0 \<le> fdiv (of_nat a) (of_nat b)"
  by (simp add: fdiv_def double_of_nonneg)

lemma similarity_nonneg: "0 \<le> similarity key k"
proof -
  have "(0::rat) \<le> double_of (9 / 10)" by (rule double_of_nonneg) simp
  then show ?thesis by (simp add: similarity_def fdiv_nonneg)
qed

lemma fold_max_lower: "(b::rat) \<le> fold (\<lambda>k best. max best (f k)) ks b"
  by (induction ks arbitrary: b) (auto intro: order_trans[OF max.cobounded1])

lemma fold_max_member:
  "k \<in> set ks \<Longrightarrow> f k \<le> fold (\<lambda>k best. max best (f k)) ks (b::rat)"
proof (induction ks arbitrary: b)
  case Nil
  then show ?case by simp
next
  case (Cons a ks)
  show ?case
  proof (cases "k = a")
    case True
    have "f a \<le> max b (f a)" by simp
    also have "\<dots> \<le> fold (\<lambda>k best. max best (f k)) ks (max b (f a))" by (rule fold_max_lower)
    finally show ?thesis using True by simp
  next
    case False
    with Cons.prems have "k \<in> set ks" by simp
    from Cons.IH[OF this] show ?thesis by simp
  qed
qed

lemma str_in_Nil: "str_in [] ys"
  by (cases ys) simp_all

lemma partial_match_fold:
  assumes "\<forall>k\<in>set ks. k \<noteq> key \<and> lower k \<noteq> lower key" and "0 \<le> bs"
  shows "\<exists>bm'. partial_match (lower key) ks (bm, bs) =
           Inr (bm', fold (\<lambda>k best. max best (similarity key k)) ks bs)"
  using assms
proof (induction ks arbitrary: bm bs)
  case Nil
  then show ?case by simp
next
  case (Cons k ks)
  from Cons.prems have k: "k \<noteq> key" "lower k \<noteq> lower key"
    and rest: "\<forall>k\<in>set ks. k \<noteq> key \<and> lower k \<noteq> lower key" by simp_all
  have nb: "0 \<le> max bs (similarity key k)" using Cons.prems(2) by simp
  have step: "\<And>bm1. \<exists>bm'. partial_match (lower key) ks (bm1, max bs (similarity key k)) =
           Inr (bm', fold (\<lambda>k best. max best (similarity key k)) ks (max bs (similarity key k)))"
    using Cons.IH[OF rest nb] by blast
  consider (a) "str_in (lower key) (lower k)"
    | (b) "\<not> str_in (lower key) (lower k)" "str_in (lower k) (lower key)"
    | (c) "\<not> str_in (lower key) (lower k)" "\<not> str_in (lower k) (lower key)"
    by blast
  then show ?case
  proof cases
    case a
    have ne: "lower k \<noteq> []"
    proof
      assume e: "lower k = []"
      with a have "lower key = []" by simp
      with e k(2) show False by simp
    qed
    have s: "similarity key k = fdiv (of_nat (length (lower key))) (of_nat (length (lower k)))"
      using a k by (simp add: similarity_def)
    have m: "(if bs < similarity key k then (Some k, similarity key k) else (bm, bs))
             = ((if bs < similarity key k then Some k else bm), max bs (similarity key k))"
      by (auto simp: max_def)
    show ?thesis using a ne step[of "if bs < similarity key k then Some k else bm"]
      by (simp add: s[symmetric] m Let_def)
  next
    case b
    have ne: "lower key \<noteq> []"
    proof
      assume "lower key = []"
      with b(1) show False by (simp add: str_in_Nil)
    qed
    have s: "similarity key k = fdiv (of_nat (length (lower k))) (of_nat (length (lower key)))"
      using b k by (simp add: similarity_def)
    have m: "(if bs < similarity key k then (Some k, similarity key k) else (bm, bs))
             = ((if bs < similarity key k then Some k else bm), max bs (similarity key k))"
      by (auto simp: max_def)
    show ?thesis using b ne step[of "if bs < similarity key k then Some k else bm"]
      by (simp add: s[symmetric] m Let_def)
  next
    case c
    have s: "similarity key k = 0" using c k by (simp add: similarity_def)
    have "max bs (similarity key k) = bs" using Cons.prems(2) by (simp add: s)
    with step[of bm] show ?thesis using c by simp
  qed
qed

lemma nine_tenths_gt_half: "(1::rat) / 2 < double_of (9 / 10)" "double_of (1 / 2) = 1 / 2"
  by code_simp+

lemma fuzzy_match_below_threshold:
  assumes "best_similarity key collection \<le> 1 / 2"
  shows "fuzzy_match key collection = Inr (None, 0)"
proof -
  let ?ks = "map fst collection"
  have each: "\<And>k. k \<in> set ?ks \<Longrightarrow> similarity key k \<le> 1 / 2"
    using fold_max_member[of _ ?ks "similarity key" 0] assms
    unfolding best_similarity_def by (meson order_trans)
  have no: "\<forall>k\<in>set ?ks. k \<noteq> key \<and> lower k \<noteq> lower key"
  proof
    fix k assume k: "k \<in> set ?ks"
    have "k \<noteq> key"
    proof
      assume "k = key"
      then have "similarity key k = 1" by (simp add: similarity_def)
      with each[OF k] show False by simp
    qed
    moreover have "lower k \<noteq> lower key"
    proof
      assume "lower k = lower key"
      with \<open>k \<noteq> key\<close> have "similarity key k = double_of (9 / 10)" by (simp add: similarity_def)
      with each[OF k] nine_tenths_gt_half(1) show False by simp
    qed
    ultimately show "k \<noteq> key \<and> lower k \<noteq> lower key" by simp
  qed
  have ex: "key \<notin> set ?ks" using no by blast
  have ci: "case_insensitive_match (lower key) ?ks = None"
    using no by (induction ?ks arbitrary: collection) auto
  from partial_match_fold[OF no, of 0 None]
  obtain bm' where pm: "partial_match (lower key) ?ks (None, 0) =
      Inr (bm', best_similarity key collection)"
    unfolding best_similarity_def by auto
  show ?thesis using ex ci pm assms
    by (simp add: fuzzy_match_def nine_tenths_gt_half(2))
qed

lemma fuzzy_match_exact:
  "key \<in> set (map fst collection) \<Longrightarrow> fuzzy_match key collection = Inr (Some key, 1)"
  by (simp add: fuzzy_match_def)

text \<open>
  Claim C5. For a string key and a lookup type that is \<open>constant\<close> or \<open>formula\<close>
  (given or by default): when the key is a key of the selected table, \<open>execute\<close> returns
  that entry with neither \<open>match_confidence\<close> nor \<open>original_query\<close>; when the best
  similarity of the key to the table's keys does not exceed 0.5, \<open>execute\<close> raises a
  \<open>ToolError\<close>, the no-match error (for the empty key, the missing-key error raised
  before any matching).
\<close>

theorem lookup_exact_and_threshold:
  assumes "map_of inputs ''key'' = Some (PStr key)"
    and "dict_get_default inputs ''type'' (PStr ''constant'') = PStr lookup_type"
    and "lookup_type = ''constant'' \<or> lookup_type = ''formula''"
  shows "(key \<noteq> [] \<and> key \<in> set (map fst (collection_of tool lookup_type)) \<longrightarrow>
           (\<exists>res. LookupTool_execute tool inputs = Inr res
              \<and> map_of res ''key'' = Some (PStr key)
              \<and> map_of res ''match_confidence'' = None
              \<and> map_of res ''original_query'' = None))
         \<and> (best_similarity key (collection_of tool lookup_type) \<le> 1 / 2 \<longrightarrow>
              (\<exists>e. LookupTool_execute tool inputs = Inl e \<and> is_ToolError e
                 \<and> (key \<noteq> [] \<longrightarrow> e = NoMatchFound lookup_type key)))"
proof (intro conjI impI)
  assume a: "key \<noteq> [] \<and> key \<in> set (map fst (collection_of tool lookup_type))"
  have k: "dict_get_default inputs ''key'' (PStr []) = PStr key"
    using assms(1) by (simp add: dict_get_default_def)
  from a have f: "fuzzy_match key (collection_of tool lookup_type) = Inr (Some key, 1)"
    by (simp add: fuzzy_match_exact)
  show "\<exists>res. LookupTool_execute tool inputs = Inr res
              \<and> map_of res ''key'' = Some (PStr key)
              \<and> map_of res ''match_confidence'' = None
              \<and> map_of res ''original_query'' = None"
    using assms(3)
  proof
    assume c: "lookup_type = ''constant''"
    then have f': "fuzzy_match key (constants tool) = Inr (Some key, 1)"
      using f by (simp add: collection_of_def)
    show ?thesis using a c
      by (simp add: LookupTool_execute_def k assms(2) f' Let_def)
  next
    assume c: "lookup_type = ''formula''"
    then have f': "fuzzy_match key (formulas tool) = Inr (Some key, 1)"
      using f by (simp add: collection_of_def)
    show ?thesis using a c
      by (simp add: LookupTool_execute_def k assms(2) f' Let_def)
  qed
next
  assume b: "best_similarity key (collection_of tool lookup_type) \<le> 1 / 2"
  have k: "dict_get_default inputs ''key'' (PStr []) = PStr key"
    using assms(1) by (simp add: dict_get_default_def)
  have f: "fuzzy_match key (collection_of tool lookup_type) = Inr (None, 0)"
    using b by (rule fuzzy_match_below_threshold)
  show "\<exists>e. LookupTool_execute tool inputs = Inl e \<and> is_ToolError e
                 \<and> (key \<noteq> [] \<longrightarrow> e = NoMatchFound lookup_type key)"
    using assms(3)
  proof
    assume c: "lookup_type = ''constant''"
    then have f': "fuzzy_match key (constants tool) = Inr (None, 0)"
      using f by (simp add: collection_of_def)
    show ?thesis using c
      by (cases "key = []") (simp_all add: LookupTool_execute_def k assms(2) f' Let_def)
  next
    assume c: "lookup_type = ''formula''"
    then have f': "fuzzy_match key (formulas tool) = Inr (None, 0)"
      using f by (simp add: collection_of_def)
    show ?thesis using c
      by (cases "key = []") (simp_all add: LookupTool_execute_def k assms(2) f' Let_def)
  qed
qed

lemma g_is_constant: "''g'' \<in> set (map fst (collection_of LookupTool_init ''constant''))"
  by (simp add: collection_of_def LookupTool_init_def PHYSICS_CONSTANTS_def)

lemma kinetic_similarity:
  "best_similarity ''kinetic'' (collection_of LookupTool_init ''formula'') \<le> 1 / 2"
  by code_simp

theorem lookup_exact_and_threshold_witness:
  "''g'' \<in> set (map fst (collection_of LookupTool_init ''constant''))
   \<and> (\<exists>res. LookupTool_execute LookupTool_init [(''key'', PStr ''g'')] = Inr res
         \<and> map_of res ''key'' = Some (PStr ''g'')
         \<and> map_of res ''match_confidence'' = None
         \<and> map_of res ''original_query'' = None)
   \<and> best_similarity ''kinetic'' (collection_of LookupTool_init ''formula'') \<le> 1 / 2
   \<and> LookupTool_execute LookupTool_init [(''key'', PStr ''kinetic''), (''type'', PStr ''formula'')]
       = Inl (NoMatchFound ''formula'' ''kinetic'')"
proof -
  have a: "\<exists>res. LookupTool_execute LookupTool_init [(''key'', PStr ''g'')] = Inr res
         \<and> map_of res ''key'' = Some (PStr ''g'')
         \<and> map_of res ''match_confidence'' = None
         \<and> map_of res ''original_query'' = None"
    using lookup_exact_and_threshold
            [of "[(''key'', PStr ''g'')]" "''g''" "''constant''" LookupTool_init]
          g_is_constant
    by (simp add: dict_get_default_def)
  have b: "LookupTool_execute LookupTool_init
             [(''key'', PStr ''kinetic''), (''type'', PStr ''formula'')]
           = Inl (NoMatchFound ''formula'' ''kinetic'')"
    using lookup_exact_and_threshold
            [of "[(''key'', PStr ''kinetic''), (''type'', PStr ''formula'')]" "''kinetic''"
                "''formula''" LookupTool_init]
          kinetic_similarity
    by (auto simp add: dict_get_default_def)
  from a b g_is_constant kinetic_similarity show ?thesis by blast
qed

section \<open>The calculator's validation\<close>

lemma number_patterns_compile:
  "re_compile False digits_pattern = Inr (Cat Bol (Cat (Rep 1 (Cls False [(48, 57)])) Eol), 0)"
  "re_compile False decimal_pattern =
     Inr (Cat Bol (Cat (Rep 1 (Cls False [(48, 57)]))
            (Cat (Cls False [(46, 46)]) (Cat (Rep 1 (Cls False [(48, 57)])) Eol))), 0)"
  by code_simp+

lemma is_number_token_total: "\<exists>b. is_number_token t = Inr b"
  by (auto simp add: is_number_token_def re_match_def number_patterns_compile
      split: option.splits)

lemma plus_pattern_error:
  "re_compile False ''^+$'' = Inl (ReError ''nothing to repeat'' 1)"
  by code_simp

lemma token_allowed_raises:
  "token_allowed allowed_symbols t = Inl (ReError ''nothing to repeat'' 1)"
  by (simp add: allowed_symbols_def re_match_def plus_pattern_error)

lemma check_tokens_raises:
  assumes "t \<in> set tokens" "is_number_token t = Inr False"
  shows "check_tokens tokens = Inl (ReError ''nothing to repeat'' 1)"
  using assms
proof (induction tokens)
  case Nil
  then show ?case by simp
next
  case (Cons a tokens)
  from is_number_token_total[of a] obtain b where b: "is_number_token a = Inr b" by blast
  show ?case
  proof (cases b)
    case True
    with b Cons.prems have "t \<in> set tokens" by auto
    with Cons.IH Cons.prems(2) b True show ?thesis by simp
  next
    case False
    with b show ?thesis by (simp add: token_allowed_raises)
  qed
qed

lemma tokens_2plus2: "re_findall token_pattern ''2+2'' = Inr [''2'', ''+'', ''2'']"
  by code_simp

lemma tokens_open2: "re_findall token_pattern ''(2'' = Inr [''('', ''2'']"
  by code_simp

lemma not_numbers: "is_number_token ''+'' = Inr False" "is_number_token ''('' = Inr False"
  by code_simp+

lemma not_blank_exprs: "strip ''2+2'' \<noteq> []" "strip ''(2'' \<noteq> []"
  by code_simp+

lemma unbalanced_open2:
  "length (filter (\<lambda>c. c = CHR ''('') ''(2'') \<noteq> length (filter (\<lambda>c. c = CHR '')'') ''(2'')"
  by simp

text \<open>
  Claim C4. The validation checks every token that is not a number against the keys of
  \<open>allowed_symbols\<close>, each used as a regular expression between \<open>^\<close> and \<open>$\<close>. The first
  key is \<open>+\<close>, and \<open>^+$\<close> is not a regular expression: compiling it raises \<open>re.error\<close>
  (nothing to repeat at position 1). So whenever the expression holds a token that is not
  a number (an operator, a parenthesis, a name), \<open>execute\<close> raises that \<open>re.error\<close>:
  it returns no result, and it raises no \<open>ToolError\<close> of the validation, whether the
  parentheses are balanced or not.
\<close>

theorem calculator_validation_raises_regex_error:
  assumes "map_of inputs ''expression'' = Some (PStr s)" and "strip s \<noteq> []"
    and "re_findall token_pattern s = Inr tokens"
    and "t \<in> set tokens" and "is_number_token t = Inr False"
  shows "CalculatorTool_execute ev inputs = Inl (RegexError (ReError ''nothing to repeat'' 1))"
proof -
  have ne: "s \<noteq> []" using assms(2) by (auto simp: strip_def)
  have "validate_expression (PStr s) = Inl (RegexError (ReError ''nothing to repeat'' 1))"
    using ne assms(2,3) check_tokens_raises[OF assms(4,5)]
    by (simp add: validate_expression_def)
  then show ?thesis using assms(1)
    by (simp add: CalculatorTool_execute_def dict_get_default_def)
qed

theorem calculator_validation_raises_regex_error_witness:
  "strip ''2+2'' \<noteq> [] \<and> re_findall token_pattern ''2+2'' = Inr [''2'', ''+'', ''2'']
   \<and> is_number_token ''+'' = Inr False
   \<and> CalculatorTool_execute exact_evaluator [(''expression'', PStr ''2+2'')]
       = Inl (RegexError (ReError ''nothing to repeat'' 1))
   \<and> length (filter (\<lambda>c. c = CHR ''('') ''(2'') \<noteq> length (filter (\<lambda>c. c = CHR '')'') ''(2'')
   \<and> CalculatorTool_execute exact_evaluator [(''expression'', PStr ''(2'')]
       = Inl (RegexError (ReError ''nothing to repeat'' 1))"
proof -
  have a: "CalculatorTool_execute exact_evaluator [(''expression'', PStr ''2+2'')]
       = Inl (RegexError (ReError ''nothing to repeat'' 1))"
    by (rule calculator_validation_raises_regex_error
              [OF _ not_blank_exprs(1) tokens_2plus2 _ not_numbers(1)]) simp_all
  have b: "CalculatorTool_execute exact_evaluator [(''expression'', PStr ''(2'')]
       = Inl (RegexError (ReError ''nothing to repeat'' 1))"
    by (rule calculator_validation_raises_regex_error
              [OF _ not_blank_exprs(2) tokens_open2 _ not_numbers(2)]) simp_all
  from a b not_blank_exprs(1) tokens_2plus2 not_numbers(1) unbalanced_open2
  show ?thesis by blast
qed

section \<open>The result of a tool and the agent that asked for it\<close>

lemma calculate_42_expression:
  "extract_calculation_expression (query (context_of ''calculate 42'')) = Inr (Some ''42'')"
  "format_calculation_for_tool ''42'' = Inr ''42''"
  by code_simp+

lemma calculate_42_tool:
  "execute_tool full_runner ''CalculatorTool'' [(''expression'', PStr ''42'')] =
     ToolResultEvent ''CalculatorTool''
       [(''result'', PFloat (Fin 42)), (''steps'', PList [PStr ''Calculate: 42''])] None
       ''req-1'' ''trace-1''"
  by code_simp

text \<open>
  Claim C1. The Math agent yields its tool invocation and then waits at a bare
  \<^verbatim>\<open>yield\<close> for the result to be sent to it. The Runner executes the tool and yields the
  tool result to its own consumer; its \<^verbatim>\<open>async for\<close> resumes the agent with nothing.
  The agent's bare \<^verbatim>\<open>yield\<close> then hands the Runner the event \<open>None\<close>, reading the type
  of which raises, and the run ends with the error \<open>AGENT_EXECUTION_ERROR\<close>: the
  result never reaches the agent, and no final response follows.
\<close>

theorem tool_result_never_reaches_math_agent:
  assumes "agents r ''MathAgent'' = Some (MathAgent_run orc)"
    and "extract_calculation_expression (query ctx) = Inr (Some expression)"
    and "format_calculation_for_tool expression = Inr formatted"
  shows "run_agent r (Suc depth) ''MathAgent'' ctx =
           [execute_tool r ''CalculatorTool'' [(''expression'', PStr formatted)],
            ErrorEvent ''AGENT_EXECUTION_ERROR''
              (''Agent execution failed: '' @ none_event_message) None
              (runner_request_id r) (runner_trace_id r)]"
  using assms by (simp add: MathAgent_run_def Let_def)

theorem tool_result_never_reaches_math_agent_witness:
  "agents full_runner ''MathAgent'' = Some (MathAgent_run canned_oracle)
   \<and> extract_calculation_expression (query (context_of ''calculate 42'')) = Inr (Some ''42'')
   \<and> format_calculation_for_tool ''42'' = Inr ''42''
   \<and> run_agent full_runner 1 ''MathAgent'' (context_of ''calculate 42'') =
       [ToolResultEvent ''CalculatorTool''
          [(''result'', PFloat (Fin 42)), (''steps'', PList [PStr ''Calculate: 42''])] None
          ''req-1'' ''trace-1'',
        ErrorEvent ''AGENT_EXECUTION_ERROR''
          (''Agent execution failed: '' @ none_event_message) None ''req-1'' ''trace-1'']"
proof -
  have h: "agents full_runner ''MathAgent'' = Some (MathAgent_run canned_oracle)"
    by (simp add: full_runner_def shipped_agents_def)
  have i: "runner_request_id full_runner = ''req-1''" "runner_trace_id full_runner = ''trace-1''"
    by (simp_all add: full_runner_def)
  from tool_result_never_reaches_math_agent [OF h calculate_42_expression, where depth = 0]
  have "run_agent full_runner 1 ''MathAgent'' (context_of ''calculate 42'') =
       [ToolResultEvent ''CalculatorTool''
          [(''result'', PFloat (Fin 42)), (''steps'', PList [PStr ''Calculate: 42''])] None
          ''req-1'' ''trace-1'',
        ErrorEvent ''AGENT_EXECUTION_ERROR''
          (''Agent execution failed: '' @ none_event_message) None ''req-1'' ''trace-1'']"
    by (simp only: calculate_42_tool i One_nat_def)
  with h calculate_42_expression show ?thesis by blast
qed

section \<open>Properties of the session store\<close>

text \<open>
  Claim C9. For every session id, \<open>update_session_state\<close> with an empty updates
  mapping leaves what \<open>get_session_state\<close> returns unchanged, for the updated id and
  for every other id.
\<close>

theorem update_session_state_empty_get:
  "get_session_state (update_session_state ss sid Map.empty) sid' = get_session_state ss sid'"
  by (cases "ss sid") (simp_all add: get_session_state_def update_session_state_def)

end
